theory Spec2Isabelle
  imports Complex_Main "HOL-Library.AList"
begin

section \<open>JavaScript values used by both services\<close>

text \<open>
  Strings are \<open>string\<close>; every address handled here is ASCII, so \<open>toLowerCase\<close>
  maps the letters A..Z to a..z and leaves every other character alone.
  A thrown exception is a value of \<open>js_error\<close> on the left of a sum.
\<close>

datatype js_error = TypeError | SyntaxError | NetworkError

definition lowerChar :: "char \<Rightarrow> char" where
  "lowerChar c =
     (let n = (of_char c :: nat) in if 65 \<le> n \<and> n \<le> 90 then char_of (n + 32) else c)"

definition toLowerCase :: "string \<Rightarrow> string" where
  "toLowerCase s = map lowerChar s"

text \<open>\<open>s.split(c)\<close>: the pieces of \<open>s\<close> between the occurrences of \<open>c\<close>.\<close>

fun split :: "char \<Rightarrow> string \<Rightarrow> string list" where
  "split c [] = [[]]"
| "split c (x # xs) =
     (if x = c then [] # split c xs
      else (case split c xs of [] \<Rightarrow> [[x]] | w # ws \<Rightarrow> (x # w) # ws))"

text \<open>\<open>xs[i]\<close>, which is \<open>undefined\<close> out of range.\<close>

definition at_index :: "'a list \<Rightarrow> nat \<Rightarrow> 'a option" where
  "at_index xs i = (if i < length xs then Some (xs ! i) else None)"

section \<open>services/tokenDataService.js: the rate-budgeted refresh scheduler\<close>

subsection \<open>Data\<close>

text \<open>
  One item of the price API's \<open>response.data.data\<close>: \<open>token_id\<close> is \<open>token.id\<close>,
  \<open>token_attributes\<close> is \<open>token.attributes\<close> (\<open>None\<close> when the item has none).
  Attribute values arrive as JSON strings; \<open>None\<close> is a missing or null attribute.
\<close>

record attributes =
  attr_price_usd :: "string option"
  attr_fdv_usd :: "string option"
  attr_volume_usd_h24 :: "string option"
  attr_name :: "string option"
  attr_symbol :: "string option"
  attr_total_reserve_in_usd :: "string option"
  attr_total_supply :: "string option"

record api_token =
  token_id :: string
  token_attributes :: "attributes option"

text \<open>
  The outcome of \<open>geckoTerminalApi.get\<close>: the promise rejects (network failure, timeout,
  a non-2xx status such as 429), or resolves with a body whose \<open>data.data\<close> is absent
  or is a list of items.
\<close>

datatype api_response = ApiError | ApiOk "api_token list option"

text \<open>
  The value stored under one address in \<open>result.tokens\<close>.
\<close>

record price_data =
  pd_price_usd :: real
  pd_fdv_usd :: real
  pd_volume_usd :: real
  pd_market_cap :: real
  pd_last_updated :: nat
  pd_name :: "string option"
  pd_symbol :: "string option"
  pd_total_reserve_in_usd :: real
  pd_total_supply :: real

text \<open>
  A document of the TokenPrice collection, with the paths that models/TokenPrice.js
  declares and the passes write: \<open>price_usd\<close>, \<open>fdv_usd\<close>, \<open>volume_usd\<close>,
  \<open>last_updated\<close>, \<open>name\<close> and \<open>symbol\<close> (\<open>None\<close> when the document has none). The
  schema declares no \<open>market_cap\<close>, \<open>priority\<close>, \<open>total_reserve_in_usd\<close> or
  \<open>total_supply\<close>, so no document holds one.
\<close>

record price_doc =
  tp_price_usd :: real
  tp_fdv_usd :: real
  tp_volume_usd :: real
  tp_last_updated :: nat
  tp_name :: "string option"
  tp_symbol :: "string option"

text \<open>
  What a pass sees of the outside world: \<open>parseFloat\<close>, the price API (asked with the
  ordinal of the call within the minute and the lower-cased addresses that the request
  joins with \<open>%2C\<close> into its path) and the clock read by \<open>new Date()\<close>.
\<close>

record env =
  parseFloat :: "string \<Rightarrow> real"
  api :: "nat \<Rightarrow> string list \<Rightarrow> api_response"
  now :: nat

text \<open>
  The module's variables (\<open>apiCallsThisMinute\<close>, \<open>topTokens\<close>, \<open>lastFullUpdateTime\<close>),
  the two collections the passes read and write (Token: the tracked contract addresses;
  TokenPrice: one document per contract address, in insertion order), and \<open>requests\<close>:
  the addresses of every price-API request issued since the counter was last reset,
  oldest request first. Reads and writes of the collections are taken to succeed; a
  failing one is caught by the \<open>try\<close> around it and only ends the pass or the batch,
  without a request being issued on its account.
\<close>

record service =
  apiCallsThisMinute :: nat
  topTokens :: "string list"
  lastFullUpdateTime :: nat
  tokens_db :: "string list"
  prices_db :: "(string \<times> price_doc) list"
  requests :: "string list list"

subsection \<open>fetchPriceData\<close>

text \<open>\<open>parseFloat(x || 0)\<close>: a missing or empty attribute counts as 0.\<close>

definition parseFloat_or0 :: "env \<Rightarrow> string option \<Rightarrow> real" where
  "parseFloat_or0 e x =
     (case x of None \<Rightarrow> 0 | Some v \<Rightarrow> if v = [] then 0 else parseFloat e v)"

text \<open>
  The body of the \<open>forEach\<close> callback: \<open>token.id.split('_')[1].toLowerCase()\<close> throws
  when the id has no second piece, and reading \<open>attributes.price_usd\<close> throws when the
  item has no attributes.
\<close>

definition formatToken :: "env \<Rightarrow> api_token \<Rightarrow> js_error + (string \<times> price_data)" where
  "formatToken e t =
     (case at_index (split (CHR ''_'') (token_id t)) 1 of
        None \<Rightarrow> Inl TypeError
      | Some piece \<Rightarrow>
          (case token_attributes t of
             None \<Rightarrow> Inl TypeError
           | Some a \<Rightarrow>
               Inr (toLowerCase piece,
                 \<lparr> pd_price_usd = parseFloat_or0 e (attr_price_usd a),
                   pd_fdv_usd = parseFloat_or0 e (attr_fdv_usd a),
                   pd_volume_usd = parseFloat_or0 e (attr_volume_usd_h24 a),
                   pd_market_cap = parseFloat_or0 e (attr_fdv_usd a),
                   pd_last_updated = now e,
                   pd_name = attr_name a,
                   pd_symbol = attr_symbol a,
                   pd_total_reserve_in_usd = parseFloat_or0 e (attr_total_reserve_in_usd a),
                   pd_total_supply = parseFloat_or0 e (attr_total_supply a) \<rparr>)))"

text \<open>
  \<open>response.data.data.forEach(...)\<close> filling \<open>result.tokens\<close>: an object keeps a key
  at the position of its first assignment, which is \<open>AList.update\<close>. The first item
  that throws ends the loop with the exception.
\<close>

fun formatAll ::
  "env \<Rightarrow> api_token list \<Rightarrow> (string \<times> price_data) list \<Rightarrow> js_error + (string \<times> price_data) list"
where
  "formatAll e [] acc = Inr acc"
| "formatAll e (t # ts) acc =
     (case formatToken e t of
        Inl err \<Rightarrow> Inl err
      | Inr (address, d) \<Rightarrow> formatAll e ts (AList.update address d acc))"

text \<open>
  The inner \<open>try\<close> block: the request and the formatting of its response; an exception
  of either is the \<open>Inl\<close> branch.
\<close>

definition requestPrices ::
  "env \<Rightarrow> nat \<Rightarrow> string list \<Rightarrow> js_error + (string \<times> price_data) list"
where
  "requestPrices e n addressesParam =
     (case api e n addressesParam of
        ApiError \<Rightarrow> Inl NetworkError
      | ApiOk None \<Rightarrow> Inr []
      | ApiOk (Some items) \<Rightarrow> formatAll e items [])"

text \<open>
  \<open>fetchPriceData(addresses)\<close>: the counter is incremented first, then the request is
  issued; the \<open>catch\<close> turns every exception into \<open>{ tokens: {} }\<close>.
\<close>

definition fetchPriceData ::
  "env \<Rightarrow> string list \<Rightarrow> service \<Rightarrow> (string \<times> price_data) list \<times> service"
where
  "fetchPriceData e addresses s =
     (let s1 = s\<lparr>apiCallsThisMinute := apiCallsThisMinute s + 1\<rparr>;
          addressesParam = map toLowerCase addresses;
          s2 = s1\<lparr>requests := requests s1 @ [addressesParam]\<rparr>
      in case requestPrices e (apiCallsThisMinute s1) addressesParam of
           Inl err \<Rightarrow> ([], s2)
         | Inr tokens \<Rightarrow> (tokens, s2))"

subsection \<open>The collections\<close>

text \<open>
  \<open>TokenPrice.bulkWrite\<close> of one \<open>updateOne\<close> per entry of \<open>priceData.tokens\<close>, each
  with \<open>$set: { ...data, priority, last_updated: new Date() }\<close> and \<open>upsert: true\<close>.
  \<open>$set\<close> merges into the document \<open>old\<close> of that address, if there is one: the three
  numbers and \<open>last_updated\<close> are overwritten, a \<open>name\<close> or \<open>symbol\<close> that the answer
  does not have leaves the stored one, and the keys that the schema does not declare
  (\<open>priority\<close>, \<open>market_cap\<close>, \<open>total_reserve_in_usd\<close>, \<open>total_supply\<close>) are dropped.
  The document keeps its place in the collection, or is appended when it is new.
\<close>

definition keepIfMissing :: "'a option \<Rightarrow> 'a option \<Rightarrow> 'a option" where
  "keepIfMissing new stored = (case new of None \<Rightarrow> stored | Some v \<Rightarrow> Some v)"

definition setPriceDoc :: "env \<Rightarrow> bool \<Rightarrow> price_data \<Rightarrow> price_doc option \<Rightarrow> price_doc" where
  "setPriceDoc e prio d old =
     \<lparr> tp_price_usd = pd_price_usd d, tp_fdv_usd = pd_fdv_usd d,
       tp_volume_usd = pd_volume_usd d, tp_last_updated = now e,
       tp_name = keepIfMissing (pd_name d) (case old of None \<Rightarrow> None | Some stored \<Rightarrow> tp_name stored),
       tp_symbol =
         keepIfMissing (pd_symbol d) (case old of None \<Rightarrow> None | Some stored \<Rightarrow> tp_symbol stored) \<rparr>"

definition bulkWritePrices ::
  "env \<Rightarrow> bool \<Rightarrow> (string \<times> price_data) list \<Rightarrow> (string \<times> price_doc) list
     \<Rightarrow> (string \<times> price_doc) list"
where
  "bulkWritePrices e prio tokens db =
     fold (\<lambda>(address, d) acc.
             AList.update address (setPriceDoc e prio d (map_of acc address)) acc)
          tokens db"

text \<open>
  \<open>.limit(n)\<close> of a query: 0 means no limit and a negative number counts as its
  absolute value. \<open>xs.slice(0, n)\<close>: a negative \<open>n\<close> counts from the end.
\<close>

definition limit :: "int \<Rightarrow> 'a list \<Rightarrow> 'a list" where
  "limit n xs = (if n = 0 then xs else take (nat \<bar>n\<bar>) xs)"

definition slice0 :: "int \<Rightarrow> 'a list \<Rightarrow> 'a list" where
  "slice0 n xs = (if 0 \<le> n then take (nat n) xs else take (length xs - nat (- n)) xs)"

text \<open>
  The filter \<open>{ contractAddress: { $nin: topTokens } }\<close>, and the two sorted queries;
  documents with equal sort keys keep their collection order. No document has a
  \<open>market_cap\<close>, so \<open>.sort({ market_cap: -1 })\<close> finds the same missing key on every
  document.
\<close>

definition notPriority :: "service \<Rightarrow> string \<Rightarrow> bool" where
  "notPriority s a = (a \<notin> set (topTokens s))"

definition byMarketCapDesc :: "(string \<times> price_doc) list \<Rightarrow> (string \<times> price_doc) list" where
  "byMarketCapDesc db = sort_key (\<lambda>(a, d). ()) db"

definition byLastUpdated :: "(string \<times> price_doc) list \<Rightarrow> (string \<times> price_doc) list" where
  "byLastUpdated db = sort_key (\<lambda>(a, d). tp_last_updated d) db"

subsection \<open>The passes\<close>

definition PRIORITY_TOKEN_COUNT :: nat where
  "PRIORITY_TOKEN_COUNT = 10"

definition BATCH_SIZE :: nat where
  "BATCH_SIZE = 30"

text \<open>The callback of \<open>setupApiCallTracking\<close>'s one-minute interval timer.\<close>

definition resetApiCalls :: "service \<Rightarrow> service" where
  "resetApiCalls s = s\<lparr>apiCallsThisMinute := 0, requests := []\<rparr>"

definition updateTopTokensList :: "env \<Rightarrow> service \<Rightarrow> service" where
  "updateTopTokensList e s =
     s\<lparr>topTokens := map fst (take PRIORITY_TOKEN_COUNT (byMarketCapDesc (prices_db s))),
       lastFullUpdateTime := now e\<rparr>"

definition updatePriorityTokens :: "env \<Rightarrow> service \<Rightarrow> service" where
  "updatePriorityTokens e s =
     (if 30 \<le> apiCallsThisMinute s then s
      else if topTokens s = [] then updateTopTokensList e s
      else (case fetchPriceData e (topTokens s) s of
              (priceData, s1) \<Rightarrow>
                s1\<lparr>prices_db := bulkWritePrices e True priceData (prices_db s1)\<rparr>))"

text \<open>
  \<open>tokensToUpdate\<close> of \<open>updateNonPriorityTokens\<close>: the non-priority price documents,
  oldest \<open>last_updated\<close> first, at most \<open>maxTokens\<close> of them; only when there is no such
  document, the first \<open>maxTokens\<close> non-priority addresses of the Token collection.
\<close>

definition maxTokens :: "service \<Rightarrow> int" where
  "maxTokens s =
     (let remainingCalls = 28 - int (apiCallsThisMinute s);
          maxBatches = remainingCalls
      in maxBatches * int BATCH_SIZE)"

definition allTokens :: "service \<Rightarrow> string list" where
  "allTokens s = filter (notPriority s) (tokens_db s)"

definition oldestFirstTokens :: "service \<Rightarrow> (string \<times> price_doc) list" where
  "oldestFirstTokens s =
     limit (maxTokens s) (byLastUpdated (filter (\<lambda>(a, d). notPriority s a) (prices_db s)))"

definition tokensToUpdate :: "service \<Rightarrow> string list" where
  "tokensToUpdate s =
     (if oldestFirstTokens s \<noteq> [] then map fst (oldestFirstTokens s)
      else slice0 (maxTokens s) (allTokens s))"

text \<open>
  One iteration of the batch loop, after its safety check: the slice of at most 30
  addresses is fetched and the entries of the answer are upserted with
  \<open>priority: false\<close>.
\<close>

definition processBatch :: "env \<Rightarrow> string list \<Rightarrow> service \<Rightarrow> service" where
  "processBatch e batchAddresses s =
     (case fetchPriceData e batchAddresses s of
        (priceData, s1) \<Rightarrow>
          s1\<lparr>prices_db := bulkWritePrices e False priceData (prices_db s1)\<rparr>)"

text \<open>
  The loop \<open>for (i = 0; i < tokensToUpdate.length; i += BATCH_SIZE)\<close> over the addresses
  not yet sliced off, with \<open>if (apiCallsThisMinute >= 28) break\<close> before each batch.
\<close>

function batchLoop :: "env \<Rightarrow> string list \<Rightarrow> service \<Rightarrow> service" where
  "batchLoop e ts s =
     (if ts = [] then s
      else if 28 \<le> apiCallsThisMinute s then s
      else batchLoop e (drop BATCH_SIZE ts) (processBatch e (take BATCH_SIZE ts) s))"
  by pat_completeness auto
termination
  by (relation "measure (\<lambda>(e, ts, s). length ts)") (auto simp: BATCH_SIZE_def)

declare batchLoop.simps [simp del]

definition updateNonPriorityTokens :: "env \<Rightarrow> service \<Rightarrow> service" where
  "updateNonPriorityTokens e s =
     (if 28 \<le> apiCallsThisMinute s then s
      else if allTokens s = [] then s
      else batchLoop e (tokensToUpdate s) s)"

definition fullTokenUpdate :: "env \<Rightarrow> service \<Rightarrow> service" where
  "fullTokenUpdate e s = updateNonPriorityTokens e (updateTopTokensList e s)"

text \<open>
  What the scheduler can make happen, in any order: a tick of one of the three cron
  jobs, the timer's reset, and (for a non-priority pass whose loop is suspended at an
  \<open>await\<close> while other callbacks run) one more iteration of a batch loop in flight,
  safety check included, on whatever slice that loop has reached.
\<close>

datatype event =
    PriorityTick env
  | NonPriorityTick env
  | FullUpdateTick env
  | LoopIteration env "string list"
  | TimerReset

fun step :: "event \<Rightarrow> service \<Rightarrow> service" where
  "step (PriorityTick e) s = updatePriorityTokens e s"
| "step (NonPriorityTick e) s = updateNonPriorityTokens e s"
| "step (FullUpdateTick e) s = fullTokenUpdate e s"
| "step (LoopIteration e batch) s =
     (if 28 \<le> apiCallsThisMinute s then s else processBatch e batch s)"
| "step TimerReset s = resetApiCalls s"

definition run :: "event list \<Rightarrow> service \<Rightarrow> service" where
  "run evs s = fold step evs s"


text \<open>
  The accounting invariant: every request issued since the last reset has been counted,
  and the count is within the quota of 30.
\<close>

definition within_budget :: "service \<Rightarrow> bool" where
  "within_budget s =
     (length (requests s) = apiCallsThisMinute s \<and> apiCallsThisMinute s \<le> 30)"

text \<open>
  Rotation: \<open>n\<close> successive non-priority passes, each in a fresh accounting window
  (the timer has fired before it), pass \<open>k\<close> running in the world \<open>w k\<close>.
\<close>

fun rotation :: "(nat \<Rightarrow> env) \<Rightarrow> nat \<Rightarrow> service \<Rightarrow> service" where
  "rotation w 0 s = s"
| "rotation w (Suc n) s = updateNonPriorityTokens (w n) (resetApiCalls (rotation w n s))"

subsection \<open>Concrete inputs\<close>

text \<open>
  A price API that answers every request with one item per requested address, a price
  API that is down, and a service tracking two tokens of which only the first has a
  price document.
\<close>

definition someAttributes :: attributes where
  "someAttributes =
     \<lparr> attr_price_usd = Some ''1.5'', attr_fdv_usd = Some ''1000'',
       attr_volume_usd_h24 = None, attr_name = Some ''Alpha'', attr_symbol = Some ''ALP'',
       attr_total_reserve_in_usd = None, attr_total_supply = Some ''1000'' \<rparr>"

definition echoApi :: "nat \<Rightarrow> string list \<Rightarrow> api_response" where
  "echoApi n addresses =
     ApiOk (Some (map (\<lambda>a. \<lparr> token_id = ''base_'' @ a,
                               token_attributes = Some someAttributes \<rparr>) addresses))"

definition worldAt :: "nat \<Rightarrow> env" where
  "worldAt t = \<lparr> parseFloat = (\<lambda>v. 1), api = echoApi, now = t \<rparr>"

definition apiDown :: env where
  "apiDown = \<lparr> parseFloat = (\<lambda>v. 1), api = (\<lambda>n addresses. ApiError), now = 7 \<rparr>"

definition alphaDoc :: price_doc where
  "alphaDoc =
     \<lparr> tp_price_usd = 1, tp_fdv_usd = 1, tp_volume_usd = 0, tp_last_updated = 0,
       tp_name = Some ''Alpha'', tp_symbol = Some ''ALP'' \<rparr>"

definition twoTokens :: service where
  "twoTokens =
     \<lparr> apiCallsThisMinute = 0, topTokens = [], lastFullUpdateTime = 0,
       tokens_db = [''0xa'', ''0xb''], prices_db = [(''0xa'', alphaDoc)], requests = [] \<rparr>"

definition exhausted :: service where
  "exhausted = twoTokens\<lparr>apiCallsThisMinute := 30\<rparr>"

text \<open>
  The shape of \<open>twoTokens\<close> that rotation keeps: no priority list, both tokens
  tracked, and a price document for the first token only.
\<close>

definition unpriced_second :: "service \<Rightarrow> bool" where
  "unpriced_second s =
     (topTokens s = [] \<and> tokens_db s = [''0xa'', ''0xb'']
      \<and> map fst (prices_db s) = [''0xa''])"

section \<open>The on-chain pipeline: reference price, multicall decoding, enrichment, persistence\<close>

text \<open>
  JavaScript numbers are modelled as reals: \<open>Math.pow\<close>, \<open>Math.exp\<close>, \<open>Math.log\<close>,
  products and quotients are the exact operations, without the rounding, overflow and
  NaN of IEEE doubles. \<open>Math.pow(b, n)\<close> with an integer \<open>n\<close> is \<open>b powi n\<close>.
  What the chain answers (the pool read of the price fetch, the aggregated ERC-20 calls,
  the discovered pools and their state) is an argument of the function that uses it.
\<close>

subsection \<open>fetchWethPrice\<close>

text \<open>
  The module variables \<open>cachedWethPrice\<close> (\<open>None\<close> is \<open>null\<close>) and
  \<open>wethPriceLastUpdated\<close>, in milliseconds.
\<close>

record price_cache =
  cachedWethPrice :: "real option"
  wethPriceLastUpdated :: int

definition coldCache :: price_cache where
  "coldCache = \<lparr> cachedWethPrice = None, wethPriceLastUpdated = 0 \<rparr>"

definition WETH_PRICE_CACHE_TTL :: int where
  "WETH_PRICE_CACHE_TTL = 15 * 60 * 1000"

text \<open>
  The outcome of the three pool reads awaited together (\<open>token0()\<close>, \<open>token1()\<close>,
  \<open>slot0()\<close>): one of them rejects, or they give the two addresses and the tick.
\<close>

datatype pool_read = ReadFails | ReadOk string string int

text \<open>
  The price computed from the tick: \<open>1.0001^tick\<close> times the constant factor derived
  from the reference point (tick -200768, price 1911).
\<close>

definition priceFromReference :: "int \<Rightarrow> real" where
  "priceFromReference tick =
     (let base = 1.0001 :: real;
          tickPower = base powi tick;
          referenceTick = - 200768 :: int;
          referencePrice = 1911 :: real;
          referencePower = base powi referenceTick;
          constantFactor = referencePrice / referencePower
      in tickPower * constantFactor)"

text \<open>\<open>cachedWethPrice || 1911\<close>: \<open>null\<close> and 0 are falsy.\<close>

definition cachedOrFallback :: "price_cache \<Rightarrow> real" where
  "cachedOrFallback st =
     (case cachedWethPrice st of None \<Rightarrow> 1911 | Some p \<Rightarrow> if p = 0 then 1911 else p)"

text \<open>
  \<open>fetchWethPrice()\<close> called when \<open>Date.now()\<close> is \<open>nowMs\<close>; \<open>rd\<close> is what the pool
  read gives if it is issued. A fresh cache returns without reading; the \<open>catch\<close>
  returns the cached price or the fallback and leaves the cache as it is. The two
  addresses are read but do not enter the price.
\<close>

definition fetchWethPrice :: "int \<Rightarrow> pool_read \<Rightarrow> price_cache \<Rightarrow> real \<times> price_cache" where
  "fetchWethPrice nowMs rd st =
     (case cachedWethPrice st of
        Some p \<Rightarrow>
          if p \<noteq> 0 \<and> nowMs - wethPriceLastUpdated st < WETH_PRICE_CACHE_TTL then (p, st)
          else (case rd of
                  ReadFails \<Rightarrow> (cachedOrFallback st, st)
                | ReadOk token0 token1 tick \<Rightarrow>
                    (priceFromReference tick,
                     st\<lparr>cachedWethPrice := Some (priceFromReference tick),
                       wethPriceLastUpdated := nowMs\<rparr>))
      | None \<Rightarrow>
          (case rd of
             ReadFails \<Rightarrow> (cachedOrFallback st, st)
           | ReadOk token0 token1 tick \<Rightarrow>
               (priceFromReference tick,
                st\<lparr>cachedWethPrice := Some (priceFromReference tick),
                  wethPriceLastUpdated := nowMs\<rparr>)))"

text \<open>The cache after a sequence of calls, each with its time and its read outcome.\<close>

fun cacheAfter :: "(int \<times> pool_read) list \<Rightarrow> price_cache \<Rightarrow> price_cache" where
  "cacheAfter [] st = st"
| "cacheAfter ((nowMs, rd) # calls) st = cacheAfter calls (snd (fetchWethPrice nowMs rd st))"

subsection \<open>calculatePriceFromTick\<close>

text \<open>
  The direct power for \<open>|tick| \<le> 1000\<close>, the logarithmic form beyond, times the decimal
  adjustment. None of these operations throws, so the \<open>catch\<close> that would return 0 is
  never entered.
\<close>

definition calculatePriceFromTick :: "int \<Rightarrow> int \<Rightarrow> int \<Rightarrow> real" where
  "calculatePriceFromTick tick decimals0 decimals1 =
     (let base = 1.0001 :: real;
          exponent = tick;
          price = (if \<bar>exponent\<bar> > 1000 then exp (of_int exponent * ln base)
                   else base powi exponent);
          decimalAdjustment = (10 :: real) powi (decimals1 - decimals0)
      in price * decimalAdjustment)"

subsection \<open>Pools and the token map\<close>

text \<open>
  An entry of \<open>poolDataMap\<close>: the skeleton written at discovery, and the fields
  \<open>getPoolsData\<close> adds when the pool's call succeeded (\<open>None\<close> is \<open>undefined\<close>).
  Liquidity and sqrtPriceX96 are decimal strings.
\<close>

record pool =
  pool_address :: string
  pool_token0 :: string
  pool_token1 :: string
  pool_fee :: nat
  pool_dex :: string
  pool_liquidity :: "string option"
  pool_sqrtPriceX96 :: "string option"
  pool_tick :: "int option"

text \<open>
  What \<open>getTokensBasicInfo\<close> decodes for one token, and an entry of the token map as
  \<open>enrichWithPoolData\<close> and \<open>processAndStoreTokensData\<close> see it: the basic fields, the
  pools attached by \<open>updateTokenData\<close>, and the fields set during enrichment.
\<close>

record basic_info =
  bi_address :: string
  bi_name :: string
  bi_symbol :: string
  bi_decimals :: nat
  bi_totalSupply :: string

record token_info = basic_info +
  ti_pools :: "pool option list"
  ti_pool_count :: "nat option"
  ti_price_usd :: "real option"
  ti_liquidity_usd :: "real option"
  ti_market_cap :: "real option"
  ti_main_dex :: "string option"
  ti_main_pool_address :: "string option"
  ti_main_pool_tick :: "int option"

text \<open>
  \<open>BigInt(s)\<close> for the strings met here, which are \<open>toString()\<close> of an unsigned
  integer: a string of decimal digits is its value, the empty string is 0, and on
  anything else this model throws.
\<close>

definition digit :: "char \<Rightarrow> nat option" where
  "digit c = (let n = (of_char c :: nat) in if 48 \<le> n \<and> n \<le> 57 then Some (n - 48) else None)"

fun digits :: "string \<Rightarrow> nat \<Rightarrow> nat option" where
  "digits [] acc = Some acc"
| "digits (c # cs) acc = (case digit c of None \<Rightarrow> None | Some d \<Rightarrow> digits cs (10 * acc + d))"

definition BigInt :: "string \<Rightarrow> js_error + int" where
  "BigInt s = (case digits s 0 of None \<Rightarrow> Inl SyntaxError | Some n \<Rightarrow> Inr (int n))"

subsection \<open>enrichWithPoolData\<close>

text \<open>
  The variables of the main-pool loop; \<open>main_dex\<close> is the field the loop writes on the
  token whenever it moves to a better pool.
\<close>

record selection =
  highestLiquidity :: int
  bestPool :: "pool option"
  mainPoolAddress :: string
  mainPoolTick :: int
  main_dex :: "string option"

definition noSelection :: "string option \<Rightarrow> selection" where
  "noSelection dex =
     \<lparr> highestLiquidity = 0, bestPool = None, mainPoolAddress = [], mainPoolTick = 0,
       main_dex = dex \<rparr>"

text \<open>
  \<open>for (const pool of pools)\<close>: a pool that is undefined, has no (or an empty) liquidity
  string or no tick is skipped; \<open>BigInt(pool.liquidity)\<close> may throw, which ends the loop
  with what has been written so far; a pool takes over only when its liquidity is
  strictly greater than the highest seen.
\<close>

fun selectMainPool :: "pool option list \<Rightarrow> selection \<Rightarrow> selection \<times> js_error option" where
  "selectMainPool [] sel = (sel, None)"
| "selectMainPool (None # ps) sel = selectMainPool ps sel"
| "selectMainPool (Some p # ps) sel =
     (case pool_liquidity p of
        None \<Rightarrow> selectMainPool ps sel
      | Some l \<Rightarrow>
          if l = [] then selectMainPool ps sel
          else (case pool_tick p of
                  None \<Rightarrow> selectMainPool ps sel
                | Some t \<Rightarrow>
                    (case BigInt l of
                       Inl err \<Rightarrow> (sel, Some err)
                     | Inr liquidity \<Rightarrow>
                         if liquidity > highestLiquidity sel
                         then selectMainPool ps
                                \<lparr> highestLiquidity = liquidity, bestPool = Some p,
                                  mainPoolAddress = pool_address p, mainPoolTick = t,
                                  main_dex = Some (pool_dex p) \<rparr>
                         else selectMainPool ps sel)))"

text \<open>
  The price in WETH of a token with \<open>tokenDecimals\<close> decimals from the tick of its best
  pool; WETH has 18 decimals. When the token is token1 the function is called with the two
  decimals exchanged and the result is inverted; the tick price is positive (lemma
  \<open>calculatePriceFromTick_pos\<close>), so the division is never by 0.
\<close>

definition priceInWETH :: "bool \<Rightarrow> nat \<Rightarrow> int \<Rightarrow> real" where
  "priceInWETH isToken0 tokenDecimals tickNumber =
     (let token0Decimals = (if isToken0 then int tokenDecimals else 18);
          token1Decimals = (if isToken0 then 18 else int tokenDecimals)
      in if isToken0 then calculatePriceFromTick tickNumber token0Decimals token1Decimals
         else (let priceInverse = calculatePriceFromTick tickNumber token1Decimals token0Decimals
               in 1 / priceInverse))"

text \<open>
  The two estimators \<open>calculateLiquidityInUSD\<close> and \<open>calculateMarketCap\<close> are
  parameters of the enrichment: what is proved below holds whatever they return.
\<close>

record estimators =
  calculateLiquidityInUSD ::
    "string option \<Rightarrow> string option \<Rightarrow> int \<Rightarrow> real \<Rightarrow> bool \<Rightarrow> int \<Rightarrow> int \<Rightarrow> real \<Rightarrow> real"
  calculateMarketCap :: "string \<Rightarrow> nat \<Rightarrow> real \<Rightarrow> real"

text \<open>
  The part of the loop body after the main pool is chosen: the address and tick are
  stored, the price and the liquidity are computed when there is a best pool, and the
  market cap when the price is positive.
\<close>

definition priceToken ::
  "estimators \<Rightarrow> real \<Rightarrow> string \<Rightarrow> selection \<Rightarrow> token_info \<Rightarrow> token_info"
where
  "priceToken est wethPriceUsd tokenAddress sel td =
     (let td1 = td\<lparr>ti_main_dex := main_dex sel,
                   ti_main_pool_address := Some (mainPoolAddress sel),
                   ti_main_pool_tick := Some (mainPoolTick sel)\<rparr>;
          (price, liquidity_usd) =
            (case bestPool sel of
               None \<Rightarrow> (0, 0)
             | Some b \<Rightarrow>
                 (case pool_tick b of
                    None \<Rightarrow> (0, 0)
                  | Some tickNumber \<Rightarrow>
                      (let isToken0 = (toLowerCase (pool_token0 b) = toLowerCase tokenAddress);
                           token0Decimals = (if isToken0 then int (bi_decimals td) else 18);
                           token1Decimals = (if isToken0 then 18 else int (bi_decimals td));
                           price = priceInWETH isToken0 (bi_decimals td) tickNumber * wethPriceUsd
                       in (price,
                           calculateLiquidityInUSD est (pool_liquidity b) (pool_sqrtPriceX96 b)
                             tickNumber price isToken0 token0Decimals token1Decimals
                             wethPriceUsd))));
          td2 = td1\<lparr>ti_price_usd := Some price, ti_liquidity_usd := Some liquidity_usd\<rparr>
      in if price > 0
         then td2\<lparr>ti_market_cap :=
                    Some (calculateMarketCap est (bi_totalSupply td) (bi_decimals td) price)\<rparr>
         else td2)"

text \<open>
  The loop body for one entry: a token without pools is skipped; otherwise the pool
  count is written and the main pool chosen. The second component is the exception
  that escaped, if any.
\<close>

definition enrichToken ::
  "estimators \<Rightarrow> real \<Rightarrow> string \<Rightarrow> token_info \<Rightarrow> token_info \<times> js_error option"
where
  "enrichToken est wethPriceUsd tokenAddress td =
     (if ti_pools td = [] then (td, None)
      else (let td1 = td\<lparr>ti_pool_count := Some (length (ti_pools td))\<rparr>
            in case selectMainPool (ti_pools td) (noSelection (ti_main_dex td1)) of
                 (sel, Some err) \<Rightarrow> (td1\<lparr>ti_main_dex := main_dex sel\<rparr>, Some err)
               | (sel, None) \<Rightarrow> (priceToken est wethPriceUsd tokenAddress sel td1, None)))"

text \<open>
  \<open>enrichWithPoolData(tokenInfoMap)\<close> after the WETH price is known: the entries in
  key order; an exception leaves the remaining entries as they are (the \<open>catch\<close>
  returns the map).
\<close>

fun enrichWithPoolData ::
  "estimators \<Rightarrow> real \<Rightarrow> (string \<times> token_info) list \<Rightarrow> (string \<times> token_info) list"
where
  "enrichWithPoolData est wethPriceUsd [] = []"
| "enrichWithPoolData est wethPriceUsd ((tokenAddress, td) # rest) =
     (case enrichToken est wethPriceUsd tokenAddress td of
        (td', None) \<Rightarrow> (tokenAddress, td') # enrichWithPoolData est wethPriceUsd rest
      | (td', Some err) \<Rightarrow> (tokenAddress, td') # rest)"

subsection \<open>getTokensBasicInfo\<close>

text \<open>
  The calls pushed for the aggregated request: for each address in turn its \<open>name\<close>,
  \<open>symbol\<close>, \<open>decimals\<close> and \<open>totalSupply\<close> getters, each allowed to fail; \<open>callData\<close>
  stands for the encoded call of the getter it names.
\<close>

datatype erc20_function = FnName | FnSymbol | FnDecimals | FnTotalSupply

record call3 =
  target :: string
  allowFailure :: bool
  callData :: erc20_function

definition callsFor :: "string \<Rightarrow> call3 list" where
  "callsFor address =
     [\<lparr> target = address, allowFailure = True, callData = FnName \<rparr>,
      \<lparr> target = address, allowFailure = True, callData = FnSymbol \<rparr>,
      \<lparr> target = address, allowFailure = True, callData = FnDecimals \<rparr>,
      \<lparr> target = address, allowFailure = True, callData = FnTotalSupply \<rparr>]"

fun encodeCalls :: "string list \<Rightarrow> call3 list" where
  "encodeCalls [] = []"
| "encodeCalls (address # tokenAddresses) = callsFor address @ encodeCalls tokenAddresses"

text \<open>
  One element of what \<open>aggregate3\<close> returns, and the ABI decoding of ethers for the
  four ERC-20 getters: \<open>decodeFunctionResult(...)[0]\<close> gives the value or throws
  (\<open>None\<close>) on return data it cannot decode. The total supply is decoded and turned
  into its decimal string.
\<close>

record call_result =
  success :: bool
  returnData :: string

record decoders =
  decodeName :: "string \<Rightarrow> string option"
  decodeSymbol :: "string \<Rightarrow> string option"
  decodeDecimals :: "string \<Rightarrow> nat option"
  decodeTotalSupply :: "string \<Rightarrow> string option"

text \<open>
  One \<open>if (results[j].success) { field = decode(results[j].returnData) }\<close> of the
  \<open>try\<close> block: reading \<open>.success\<close> of a missing element throws, a failed call keeps
  the default, a successful one is decoded.
\<close>

definition decodeField ::
  "(string \<Rightarrow> 'v option) \<Rightarrow> call_result option \<Rightarrow> 'v \<Rightarrow> js_error + 'v"
where
  "decodeField decode r dflt =
     (case r of
        None \<Rightarrow> Inl TypeError
      | Some c \<Rightarrow>
          if success c
          then (case decode (returnData c) of None \<Rightarrow> Inl SyntaxError | Some v \<Rightarrow> Inr v)
          else Inr dflt)"

definition basicInfo :: "string \<Rightarrow> string \<Rightarrow> string \<Rightarrow> nat \<Rightarrow> string \<Rightarrow> basic_info" where
  "basicInfo address name symbol decimals totalSupply =
     \<lparr> bi_address = address, bi_name = name, bi_symbol = symbol, bi_decimals = decimals,
       bi_totalSupply = totalSupply \<rparr>"

text \<open>
  The body of the decoding loop for the token at \<open>address\<close>, \<open>rs\<close> being the results
  from index \<open>i\<close> on: the four fields start at their defaults, and the first exception
  inside the \<open>try\<close> block leaves the fields not yet decoded at their defaults.
\<close>

definition decodeToken :: "decoders \<Rightarrow> string \<Rightarrow> call_result list \<Rightarrow> basic_info" where
  "decodeToken dec address rs =
     (case decodeField (decodeName dec) (at_index rs 0) [] of
        Inl err \<Rightarrow> basicInfo address [] [] 18 ''0''
      | Inr name \<Rightarrow>
          (case decodeField (decodeSymbol dec) (at_index rs 1) [] of
             Inl err \<Rightarrow> basicInfo address name [] 18 ''0''
           | Inr symbol \<Rightarrow>
               (case decodeField (decodeDecimals dec) (at_index rs 2) 18 of
                  Inl err \<Rightarrow> basicInfo address name symbol 18 ''0''
                | Inr decimals \<Rightarrow>
                    (case decodeField (decodeTotalSupply dec) (at_index rs 3) ''0'' of
                       Inl err \<Rightarrow> basicInfo address name symbol decimals ''0''
                     | Inr totalSupply \<Rightarrow>
                         basicInfo address name symbol decimals totalSupply))))"

text \<open>
  \<open>for (let i = 0; i < results.length; i += 4)\<close> with \<open>currentToken\<close> advancing by
  one: \<open>tokenAddresses[currentToken].toLowerCase()\<close> throws when the addresses have
  run out; \<open>tokenInfoMap[address] = ...\<close> keeps a key where it was first written.
\<close>

function decodeResults ::
  "decoders \<Rightarrow> string list \<Rightarrow> call_result list \<Rightarrow> (string \<times> basic_info) list
     \<Rightarrow> js_error + (string \<times> basic_info) list"
where
  "decodeResults dec tokenAddresses [] tokenInfoMap = Inr tokenInfoMap"
| "decodeResults dec [] (r # rs) tokenInfoMap = Inl TypeError"
| "decodeResults dec (a # as) (r # rs) tokenInfoMap =
     decodeResults dec as (drop 3 rs)
       (AList.update (toLowerCase a) (decodeToken dec (toLowerCase a) (r # rs)) tokenInfoMap)"
  by pat_completeness auto
termination
  by (relation "measure (\<lambda>(dec, tokenAddresses, results, m). length results)") auto

text \<open>
  \<open>getTokensBasicInfo(tokenAddresses)\<close>, \<open>response\<close> being what \<open>aggregate3\<close> gives for
  the four calls per token (\<open>None\<close> when the aggregated call is rejected): the outer
  \<open>catch\<close> returns the empty map.
\<close>

definition getTokensBasicInfo ::
  "decoders \<Rightarrow> string list \<Rightarrow> call_result list option \<Rightarrow> (string \<times> basic_info) list"
where
  "getTokensBasicInfo dec tokenAddresses response =
     (case response of
        None \<Rightarrow> []
      | Some results \<Rightarrow>
          (case decodeResults dec tokenAddresses results [] of
             Inl err \<Rightarrow> []
           | Inr tokenInfoMap \<Rightarrow> tokenInfoMap))"

subsection \<open>processAndStoreTokensData and the batch of updateTokenData\<close>

text \<open>
  \<open>tokenDoc\<close>, the document that is \<open>$set\<close>: these twelve fields and no other.
\<close>

record token_doc =
  contractAddress :: string
  doc_name :: string
  doc_symbol :: string
  doc_decimals :: nat
  doc_totalSupply :: string
  doc_pool_count :: nat
  doc_price_usd :: real
  doc_market_cap :: real
  doc_main_dex :: string
  doc_main_pool_address :: string
  doc_main_pool_tick :: int
  doc_lastUpdated :: nat

text \<open>
  A stored GeckoData document: the fields of \<open>tokenDoc\<close> and the two further numeric
  fields of the schema in models/GeckoData.js, \<open>volume_usd\<close> and \<open>liquidity_usd\<close>,
  each with the schema default 0.
\<close>

record gecko_data = token_doc +
  gd_volume_usd :: real
  gd_liquidity_usd :: real

text \<open>
  \<open>updateOne\<close> with \<open>$set: tokenDoc\<close> and \<open>upsert: true\<close>: an existing document keeps
  the fields that \<open>tokenDoc\<close> does not name; a new document gets the schema defaults
  for them.
\<close>

definition upsertDoc :: "token_doc \<Rightarrow> (string \<times> gecko_data) list \<Rightarrow> (string \<times> gecko_data) list" where
  "upsertDoc d store =
     AList.update (contractAddress d)
       (case map_of store (contractAddress d) of
          None \<Rightarrow> token_doc.extend d (gecko_data.fields 0 0)
        | Some old \<Rightarrow> token_doc.extend d (gecko_data.fields (gd_volume_usd old) (gd_liquidity_usd old)))
       store"

text \<open>\<open>x || d\<close> for a string, a number that may be missing, and a plain number.\<close>

definition strOr :: "string option \<Rightarrow> string \<Rightarrow> string" where
  "strOr x d = (case x of None \<Rightarrow> d | Some v \<Rightarrow> if v = [] then d else v)"

definition numOr :: "'a::zero option \<Rightarrow> 'a \<Rightarrow> 'a" where
  "numOr x d = (case x of None \<Rightarrow> d | Some v \<Rightarrow> if v = 0 then d else v)"

definition tokenDoc :: "nat \<Rightarrow> string \<Rightarrow> token_info \<Rightarrow> token_doc" where
  "tokenDoc date address tokenData =
     \<lparr> contractAddress = toLowerCase address,
       doc_name = strOr (Some (bi_name tokenData)) [],
       doc_symbol = strOr (Some (bi_symbol tokenData)) [],
       doc_decimals = numOr (Some (bi_decimals tokenData)) 18,
       doc_totalSupply = strOr (Some (bi_totalSupply tokenData)) ''0'',
       doc_pool_count = numOr (ti_pool_count tokenData) 0,
       doc_price_usd = numOr (ti_price_usd tokenData) 0,
       doc_market_cap = numOr (ti_market_cap tokenData) 0,
       doc_main_dex = strOr (ti_main_dex tokenData) [],
       doc_main_pool_address = strOr (ti_main_pool_address tokenData) [],
       doc_main_pool_tick = numOr (ti_main_pool_tick tokenData) 0,
       doc_lastUpdated = date \<rparr>"

text \<open>
  \<open>processAndStoreTokensData(tokensData)\<close>: one document per entry, written in one
  \<open>bulkWrite\<close>; the result is the list of documents and the collection afterwards.
\<close>

definition processAndStoreTokensData ::
  "nat \<Rightarrow> (string \<times> token_info) list \<Rightarrow> (string \<times> gecko_data) list
     \<Rightarrow> token_doc list \<times> (string \<times> gecko_data) list"
where
  "processAndStoreTokensData date tokensData store =
     (let processedTokens = map (\<lambda>(address, tokenData). tokenDoc date address tokenData) tokensData
      in (processedTokens, fold upsertDoc processedTokens store))"

text \<open>
  The loop of \<open>updateTokenData\<close> that attaches the pools: for each address of the batch
  whose lower-cased form is a key of the basic-info map, \<open>pools\<close> becomes the pool
  records of the addresses discovered for it and \<open>pool_count\<close> their number.
  \<open>tokenPoolsMap\<close> and \<open>poolDataMap\<close> are the results of discovery and of the pool
  state read.
\<close>

definition withPools ::
  "(string \<rightharpoonup> string list) \<Rightarrow> (string \<rightharpoonup> pool) \<Rightarrow> string \<Rightarrow> basic_info \<Rightarrow> token_info"
where
  "withPools tokenPoolsMap poolDataMap token bi =
     (let discovered = (case tokenPoolsMap token of None \<Rightarrow> [] | Some ps \<Rightarrow> ps)
      in basic_info.extend bi
           (token_info.fields (map poolDataMap discovered) (Some (length discovered))
              None None None None None None))"

definition unenriched :: "basic_info \<Rightarrow> token_info" where
  "unenriched bi = basic_info.extend bi (token_info.fields [] None None None None None None None)"

definition attachPools ::
  "(string \<rightharpoonup> string list) \<Rightarrow> (string \<rightharpoonup> pool) \<Rightarrow> string list
     \<Rightarrow> (string \<times> basic_info) list \<Rightarrow> (string \<times> token_info) list"
where
  "attachPools tokenPoolsMap poolDataMap batch tokenBasicInfo =
     map (\<lambda>(token, bi).
            if token \<in> toLowerCase ` set batch
            then (token, withPools tokenPoolsMap poolDataMap token bi)
            else (token, unenriched bi))
         tokenBasicInfo"

text \<open>
  One batch of \<open>updateTokenData\<close> from the decoded basic info on: pools attached,
  prices computed, documents stored.
\<close>

definition storeBatch ::
  "estimators \<Rightarrow> real \<Rightarrow> nat \<Rightarrow> (string \<rightharpoonup> string list) \<Rightarrow> (string \<rightharpoonup> pool)
     \<Rightarrow> string list \<Rightarrow> (string \<times> basic_info) list \<Rightarrow> (string \<times> gecko_data) list
     \<Rightarrow> token_doc list \<times> (string \<times> gecko_data) list"
where
  "storeBatch est wethPriceUsd date tokenPoolsMap poolDataMap batch tokenBasicInfo store =
     processAndStoreTokensData date
       (enrichWithPoolData est wethPriceUsd
          (attachPools tokenPoolsMap poolDataMap batch tokenBasicInfo))
       store"

text \<open>
  The GeckoData collection as \<open>updateTokenData\<close> builds it: every batch of every run
  goes through \<open>processAndStoreTokensData\<close>, each with its own WETH price, date,
  discovery results, pool states, addresses and decoded basic info, and the first batch
  finds the collection empty.
\<close>

record batch_inputs =
  bt_wethPriceUsd :: real
  bt_date :: nat
  bt_tokenPoolsMap :: "string \<rightharpoonup> string list"
  bt_poolDataMap :: "string \<rightharpoonup> pool"
  bt_addresses :: "string list"
  bt_tokenBasicInfo :: "(string \<times> basic_info) list"

definition runBatch ::
  "estimators \<Rightarrow> batch_inputs \<Rightarrow> (string \<times> gecko_data) list \<Rightarrow> (string \<times> gecko_data) list"
where
  "runBatch est b store =
     snd (storeBatch est (bt_wethPriceUsd b) (bt_date b) (bt_tokenPoolsMap b) (bt_poolDataMap b)
            (bt_addresses b) (bt_tokenBasicInfo b) store)"

definition collectionAfter :: "estimators \<Rightarrow> batch_inputs list \<Rightarrow> (string \<times> gecko_data) list" where
  "collectionAfter est batches = fold (runBatch est) batches []"

subsection \<open>initializeDataFetching: the triggers of updateTokenData\<close>

text \<open>
  The flag \<open>isUpdating\<close>, and the invocations of \<open>updateTokenData\<close> that have started
  and not yet finished, counted by the trigger that started them.
\<close>

record pipeline =
  isUpdating :: bool
  cronRuns :: nat
  startupRuns :: nat

definition idle :: pipeline where
  "idle = \<lparr> isUpdating = False, cronRuns = 0, startupRuns = 0 \<rparr>"

text \<open>
  The callbacks the event loop can run: the cron callback of every second, the
  five-second startup timeout, and the end of a run (the \<open>finally\<close> of a cron run
  clears the flag; the startup run has no continuation).
\<close>

datatype trigger = CronTick | StartupTimeout | CronRunEnds | StartupRunEnds

fun fire :: "trigger \<Rightarrow> pipeline \<Rightarrow> pipeline" where
  "fire CronTick s =
     (if isUpdating s then s else s\<lparr>isUpdating := True, cronRuns := cronRuns s + 1\<rparr>)"
| "fire StartupTimeout s = s\<lparr>startupRuns := startupRuns s + 1\<rparr>"
| "fire CronRunEnds s =
     (if cronRuns s = 0 then s else s\<lparr>cronRuns := cronRuns s - 1, isUpdating := False\<rparr>)"
| "fire StartupRunEnds s =
     (if startupRuns s = 0 then s else s\<lparr>startupRuns := startupRuns s - 1\<rparr>)"

definition schedule :: "trigger list \<Rightarrow> pipeline \<Rightarrow> pipeline" where
  "schedule ts s = fold fire ts s"

definition activeRuns :: "pipeline \<Rightarrow> nat" where
  "activeRuns s = cronRuns s + startupRuns s"

subsection \<open>Notions used to state the properties of the pipeline\<close>

text \<open>A cache that holds a price holds a positive one.\<close>

definition cache_ok :: "price_cache \<Rightarrow> bool" where
  "cache_ok st = (case cachedWethPrice st of None \<Rightarrow> True | Some p \<Rightarrow> 0 < p)"

text \<open>
  A pool the main-pool loop looks at (it has a non-empty liquidity string and a tick),
  the value of its liquidity string, and the strings \<open>BigInt\<close> accepts here.
\<close>

definition candidate :: "pool \<Rightarrow> bool" where
  "candidate p = (pool_liquidity p \<noteq> None \<and> pool_liquidity p \<noteq> Some [] \<and> pool_tick p \<noteq> None)"

definition liquidityValue :: "pool \<Rightarrow> int" where
  "liquidityValue p =
     (case pool_liquidity p of None \<Rightarrow> 0
      | Some l \<Rightarrow> (case BigInt l of Inl err \<Rightarrow> 0 | Inr v \<Rightarrow> v))"

definition decimalLiquidity :: "pool \<Rightarrow> bool" where
  "decimalLiquidity p = (case pool_liquidity p of None \<Rightarrow> True | Some l \<Rightarrow> digits l 0 \<noteq> None)"

text \<open>
  What the loop variables say about each other: without a best pool the highest
  liquidity is still 0, the address empty and the tick 0; with one, the address, tick
  and DEX label are that pool's and the highest liquidity is its positive liquidity.
\<close>

definition consistent :: "selection \<Rightarrow> bool" where
  "consistent sel =
     (case bestPool sel of
        None \<Rightarrow> highestLiquidity sel = 0 \<and> mainPoolAddress sel = [] \<and> mainPoolTick sel = 0
      | Some b \<Rightarrow> candidate b \<and> liquidityValue b = highestLiquidity sel \<and> 0 < highestLiquidity sel
                 \<and> mainPoolAddress sel = pool_address b \<and> pool_tick b = Some (mainPoolTick sel)
                 \<and> main_dex sel = Some (pool_dex b))"

text \<open>
  The entries the decoding loop writes, in order: the token at position \<open>k\<close> is decoded
  from the results at positions \<open>4k\<close> and after. \<open>fieldOf\<close> is one decoded field, the
  default when the call failed; \<open>decodable\<close> says that a successful call returned
  data the decoder accepts.
\<close>

fun decodedEntries :: "decoders \<Rightarrow> string list \<Rightarrow> call_result list \<Rightarrow> (string \<times> basic_info) list" where
  "decodedEntries dec [] rs = []"
| "decodedEntries dec (a # as) rs =
     (toLowerCase a, decodeToken dec (toLowerCase a) rs) # decodedEntries dec as (drop 4 rs)"

definition fieldOf :: "(string \<Rightarrow> 'v option) \<Rightarrow> 'v \<Rightarrow> call_result \<Rightarrow> 'v" where
  "fieldOf decode dflt r =
     (if success r then (case decode (returnData r) of None \<Rightarrow> dflt | Some v \<Rightarrow> v) else dflt)"

definition decodable :: "(string \<Rightarrow> 'v option) \<Rightarrow> call_result \<Rightarrow> bool" where
  "decodable decode r = (success r \<longrightarrow> decode (returnData r) \<noteq> None)"

subsection \<open>Concrete inputs of the pipeline\<close>

text \<open>
  Estimators that return 0, the token 0xb with six decimals, and pools pairing WETH
  (as token0) with it.
\<close>

definition WETH_ADDRESS :: string where
  "WETH_ADDRESS = ''0x4200000000000000000000000000000000000006''"

definition flatEstimators :: estimators where
  "flatEstimators =
     \<lparr> calculateLiquidityInUSD = (\<lambda>liquidity sqrtPriceX96 tick price isToken0 d0 d1 weth. 0),
       calculateMarketCap = (\<lambda>totalSupply decimals price. 0) \<rparr>"

definition betaInfo :: basic_info where
  "betaInfo = basicInfo ''0xb'' ''Beta'' ''BET'' 6 ''1000000''"

definition poolOf :: "string \<Rightarrow> string \<Rightarrow> int \<Rightarrow> pool" where
  "poolOf address liquidity tick =
     \<lparr> pool_address = address, pool_token0 = toLowerCase WETH_ADDRESS, pool_token1 = ''0xb'',
       pool_fee = 3000, pool_dex = ''Uniswap V3'', pool_liquidity = Some liquidity,
       pool_sqrtPriceX96 = Some ''79228162514264337593543950336'', pool_tick = Some tick \<rparr>"

definition betaWith :: "pool option list \<Rightarrow> token_info" where
  "betaWith pools =
     basic_info.extend betaInfo
       (token_info.fields pools (Some (length pools)) None None None None None None)"

text \<open>
  A batch in which discovery found the pool 0xp2 for the token 0xb.
\<close>

definition pooledBatch :: batch_inputs where
  "pooledBatch =
     \<lparr> bt_wethPriceUsd = 1911, bt_date = 8, bt_tokenPoolsMap = [''0xb'' \<mapsto> [''0xp2'']],
       bt_poolDataMap = [''0xp2'' \<mapsto> poolOf ''0xp2'' ''500000'' 0],
       bt_addresses = [''0xB''], bt_tokenBasicInfo = [(''0xb'', betaInfo)] \<rparr>"

definition plainDecoders :: decoders where
  "plainDecoders =
     \<lparr> decodeName = (\<lambda>data. Some data), decodeSymbol = (\<lambda>data. Some data),
       decodeDecimals = (\<lambda>data. Some 6), decodeTotalSupply = (\<lambda>data. Some data) \<rparr>"

definition ok :: "string \<Rightarrow> call_result" where
  "ok data = \<lparr> success = True, returnData = data \<rparr>"

definition failed :: call_result where
  "failed = \<lparr> success = False, returnData = [] \<rparr>"


section \<open>Properties of the refresh scheduler\<close>

lemma fetchPriceData_counter:
  "apiCallsThisMinute (snd (fetchPriceData e addresses s)) = apiCallsThisMinute s + 1"
  by (simp add: fetchPriceData_def Let_def split: sum.splits)

lemma fetchPriceData_requests:
  "requests (snd (fetchPriceData e addresses s)) = requests s @ [map toLowerCase addresses]"
  by (simp add: fetchPriceData_def Let_def split: sum.splits)

lemma processBatch_counter:
  "apiCallsThisMinute (processBatch e b s) = apiCallsThisMinute s + 1"
  using fetchPriceData_counter[of e b s]
  by (cases "fetchPriceData e b s") (simp add: processBatch_def)

lemma processBatch_requests:
  "requests (processBatch e b s) = requests s @ [map toLowerCase b]"
  using fetchPriceData_requests[of e b s]
  by (cases "fetchPriceData e b s") (simp add: processBatch_def)

lemma processBatch_within_budget:
  "within_budget s \<Longrightarrow> apiCallsThisMinute s < 30 \<Longrightarrow> within_budget (processBatch e b s)"
  by (simp add: within_budget_def processBatch_counter processBatch_requests)

lemma batchLoop_stops: "28 \<le> apiCallsThisMinute s \<Longrightarrow> batchLoop e ts s = s"
  by (subst batchLoop.simps) simp

lemma batchLoop_within_budget: "within_budget s \<Longrightarrow> within_budget (batchLoop e ts s)"
proof (induction e ts s rule: batchLoop.induct)
  case (1 e ts s)
  show ?case
  proof (cases "ts = [] \<or> 28 \<le> apiCallsThisMinute s")
    case True
    then show ?thesis using 1(2) by (subst batchLoop.simps) auto
  next
    case False
    then have "within_budget (processBatch e (take BATCH_SIZE ts) s)"
      using 1(2) by (intro processBatch_within_budget) auto
    with 1(1) False show ?thesis by (subst batchLoop.simps) simp
  qed
qed

lemma updateTopTokensList_within_budget:
  "within_budget s \<Longrightarrow> within_budget (updateTopTokensList e s)"
  by (simp add: within_budget_def updateTopTokensList_def)

lemma updatePriorityTokens_within_budget:
  "within_budget s \<Longrightarrow> within_budget (updatePriorityTokens e s)"
  using fetchPriceData_counter[of e "topTokens s" s] fetchPriceData_requests[of e "topTokens s" s]
  by (cases "fetchPriceData e (topTokens s) s")
     (auto simp: updatePriorityTokens_def within_budget_def updateTopTokensList_def)

lemma updateNonPriorityTokens_within_budget:
  "within_budget s \<Longrightarrow> within_budget (updateNonPriorityTokens e s)"
  by (simp add: updateNonPriorityTokens_def batchLoop_within_budget)

lemma step_within_budget: "within_budget s \<Longrightarrow> within_budget (step ev s)"
proof (cases ev)
  case (LoopIteration e b)
  assume "within_budget s"
  then show ?thesis using LoopIteration
    by (simp add: within_budget_def processBatch_counter processBatch_requests)
next
  case TimerReset
  then show ?thesis by (simp add: resetApiCalls_def within_budget_def)
qed (auto simp: updatePriorityTokens_within_budget updateNonPriorityTokens_within_budget
       fullTokenUpdate_def updateTopTokensList_within_budget)

lemma run_within_budget: "within_budget s \<Longrightarrow> within_budget (run evs s)"
  unfolding run_def by (induction evs arbitrary: s) (auto simp: step_within_budget)

lemma resetApiCalls_within_budget: "within_budget (resetApiCalls s)"
  by (simp add: within_budget_def resetApiCalls_def)

text \<open>
  C1. From the moment the timer resets the counter, whatever ticks of the priority,
  non-priority and full-update jobs, iterations of batch loops in flight and further
  timer resets follow, the requests issued since the last reset are exactly as many
  as the counter says, and never more than 30. A priority pass that finds the counter
  at 30 or more returns without doing anything; a non-priority pass that finds it at
  28 or more does the same, and so does every iteration of its batch loop.
\<close>

theorem budget_invariant:
  "(30 \<le> apiCallsThisMinute s \<longrightarrow> updatePriorityTokens e s = s)
   \<and> (28 \<le> apiCallsThisMinute s \<longrightarrow>
        updateNonPriorityTokens e s = s \<and> batchLoop e ts s = s
        \<and> step (LoopIteration e batch) s = s)
   \<and> length (requests (run evs (resetApiCalls s)))
        = apiCallsThisMinute (run evs (resetApiCalls s))
   \<and> length (requests (run evs (resetApiCalls s))) \<le> 30"
proof -
  have "within_budget (run evs (resetApiCalls s))"
    by (rule run_within_budget) (rule resetApiCalls_within_budget)
  then show ?thesis
    by (simp add: within_budget_def updatePriorityTokens_def updateNonPriorityTokens_def
          batchLoop_stops)
qed

theorem budget_invariant_witness:
  "30 \<le> apiCallsThisMinute exhausted
   \<and> updatePriorityTokens (worldAt 1) exhausted = exhausted
   \<and> updateNonPriorityTokens (worldAt 1) exhausted = exhausted
   \<and> length (requests (run [NonPriorityTick (worldAt 1), PriorityTick (worldAt 2)]
                (resetApiCalls exhausted))) \<le> 30"
  using budget_invariant
    [of exhausted "worldAt 1" "[]" "[]" "[NonPriorityTick (worldAt 1), PriorityTick (worldAt 2)]"]
  by (simp add: exhausted_def twoTokens_def)

subsection \<open>Rotation\<close>

lemma toLowerCase_0xa: "toLowerCase ''0xa'' = ''0xa''"
  by (simp add: toLowerCase_def lowerChar_def)

text \<open>
  Whenever some non-priority price document exists, the pass picks its addresses among
  the price documents only: a tracked token without a price document is not picked.
\<close>

lemma tokensToUpdate_only_priced:
  assumes ne: "filter (\<lambda>(a, d). notPriority s a) (prices_db s) \<noteq> []"
  shows "set (tokensToUpdate s) \<subseteq> fst ` set (prices_db s)"
proof -
  let ?f = "byLastUpdated (filter (\<lambda>(a, d). notPriority s a) (prices_db s))"
  have "?f \<noteq> []" using ne unfolding byLastUpdated_def
    by (metis length_sort length_0_conv)
  then have "oldestFirstTokens s \<noteq> []"
    by (cases ?f) (auto simp: oldestFirstTokens_def limit_def)
  moreover have "set (oldestFirstTokens s) \<subseteq> set (prices_db s)"
    unfolding oldestFirstTokens_def limit_def byLastUpdated_def
    by (auto dest: in_set_takeD)
  ultimately show ?thesis by (auto simp: tokensToUpdate_def)
qed

text \<open>
  With headroom in the budget, the pass selects at most \<open>(28 - counter) * 30\<close>
  addresses, none of them a priority token, and the price documents it selects from
  are in ascending order of \<open>last_updated\<close>.
\<close>

lemma maxTokens_headroom:
  "apiCallsThisMinute s < 28 \<Longrightarrow> maxTokens s = int ((28 - apiCallsThisMinute s) * 30)"
  by (simp add: maxTokens_def BATCH_SIZE_def Let_def)

lemma tokensToUpdate_selection:
  assumes "apiCallsThisMinute s < 28"
  shows "length (tokensToUpdate s) \<le> (28 - apiCallsThisMinute s) * 30
       \<and> set (tokensToUpdate s) \<inter> set (topTokens s) = {}
       \<and> sorted (map (\<lambda>(a, d). tp_last_updated d) (oldestFirstTokens s))
       \<and> (oldestFirstTokens s \<noteq> [] \<longrightarrow> tokensToUpdate s = map fst (oldestFirstTokens s))"
proof -
  let ?n = "(28 - apiCallsThisMinute s) * 30"
  have m: "maxTokens s = int ?n" by (rule maxTokens_headroom[OF assms])
  have pos: "0 < ?n" using assms by simp
  have o: "oldestFirstTokens s =
             take ?n (byLastUpdated (filter (\<lambda>(a, d). notPriority s a) (prices_db s)))"
    using pos by (simp add: oldestFirstTokens_def limit_def m del: of_nat_mult)
  have sl: "slice0 (maxTokens s) (allTokens s) = take ?n (allTokens s)"
    by (simp add: slice0_def m del: of_nat_mult)
  have len: "length (tokensToUpdate s) \<le> ?n"
    by (simp add: tokensToUpdate_def o sl)
  have "set (oldestFirstTokens s) \<subseteq> set (filter (\<lambda>(a, d). notPriority s a) (prices_db s))"
    unfolding o byLastUpdated_def by (auto dest: in_set_takeD)
  then have d1: "fst ` set (oldestFirstTokens s) \<inter> set (topTokens s) = {}"
    by (auto simp: notPriority_def)
  have d2: "set (take ?n (allTokens s)) \<inter> set (topTokens s) = {}"
    by (auto simp: allTokens_def notPriority_def dest: in_set_takeD)
  have dis: "set (tokensToUpdate s) \<inter> set (topTokens s) = {}"
    using d1 d2 by (simp add: tokensToUpdate_def sl)
  have "sorted (map (\<lambda>(a, d). tp_last_updated d)
                  (byLastUpdated (filter (\<lambda>(a, d). notPriority s a) (prices_db s))))"
    unfolding byLastUpdated_def by (rule sorted_sort_key)
  then have srt: "sorted (map (\<lambda>(a, d). tp_last_updated d) (oldestFirstTokens s))"
    unfolding o take_map[symmetric] by (rule sorted_wrt_take)
  show ?thesis using len dis srt by (simp add: tokensToUpdate_def)
qed

lemma tokensToUpdate_unpriced_second:
  assumes "unpriced_second s"
  shows "tokensToUpdate (resetApiCalls s) = [''0xa'']"
proof -
  from assms obtain d where p: "prices_db s = [(''0xa'', d)]"
    by (cases "prices_db s") (auto simp: unpriced_second_def)
  show ?thesis using assms p
    by (simp add: unpriced_second_def tokensToUpdate_def oldestFirstTokens_def maxTokens_def
        resetApiCalls_def notPriority_def byLastUpdated_def limit_def BATCH_SIZE_def)
qed

lemma processBatch_unpriced_second:
  assumes "unpriced_second s"
  shows "unpriced_second (processBatch (worldAt k) [''0xa''] s)"
proof -
  from assms obtain d where p: "prices_db s = [(''0xa'', d)]"
    by (cases "prices_db s") (auto simp: unpriced_second_def)
  show ?thesis using assms p
    by (simp add: unpriced_second_def processBatch_def fetchPriceData_def requestPrices_def
          worldAt_def echoApi_def toLowerCase_0xa formatToken_def at_index_def Let_def
          bulkWritePrices_def)
qed

lemma updateNonPriorityTokens_unpriced_second:
  assumes "unpriced_second s"
  shows "unpriced_second (updateNonPriorityTokens (worldAt k) (resetApiCalls s))"
proof -
  let ?r = "resetApiCalls s"
  have r: "unpriced_second ?r" "apiCallsThisMinute ?r = 0"
    using assms by (simp_all add: unpriced_second_def resetApiCalls_def)
  have a: "allTokens ?r = [''0xa'', ''0xb'']"
    using r by (simp add: allTokens_def unpriced_second_def notPriority_def)
  have l: "batchLoop (worldAt k) [''0xa''] ?r = processBatch (worldAt k) [''0xa''] ?r"
    using r(2) by (subst batchLoop.simps, subst batchLoop.simps) (simp add: BATCH_SIZE_def)
  show ?thesis
    using r processBatch_unpriced_second[OF r(1), of k]
    by (simp add: updateNonPriorityTokens_def a tokensToUpdate_unpriced_second[OF assms] l)
qed

lemma rotation_unpriced_second: "unpriced_second (rotation worldAt n twoTokens)"
  by (induction n)
     (simp_all add: updateNonPriorityTokens_unpriced_second,
      simp add: unpriced_second_def twoTokens_def)

text \<open>
  C6. Rotation does not reach every tracked token. The service tracks the tokens 0xa
  and 0xb, neither of them a priority token, and holds a price document for 0xa only;
  the price API answers every request in full and each pass runs in a fresh accounting
  window. After any number of passes 0xb is still a tracked non-priority token, and the
  next pass again selects 0xa alone.
\<close>

theorem rotation_starves_unpriced_token:
  "\<forall>n. ''0xb'' \<in> set (allTokens (rotation worldAt n twoTokens))
     \<and> tokensToUpdate (resetApiCalls (rotation worldAt n twoTokens)) = [''0xa'']"
proof
  fix n
  have s: "unpriced_second (rotation worldAt n twoTokens)"
    by (rule rotation_unpriced_second)
  then have "''0xb'' \<in> set (allTokens (rotation worldAt n twoTokens))"
    by (simp add: unpriced_second_def allTokens_def notPriority_def)
  with tokensToUpdate_unpriced_second[OF s]
  show "''0xb'' \<in> set (allTokens (rotation worldAt n twoTokens))
     \<and> tokensToUpdate (resetApiCalls (rotation worldAt n twoTokens)) = [''0xa'']"
    by simp
qed

text \<open>
  C10. \<open>fetchPriceData\<close> always returns: its result is the formatted answer of the
  request, and the empty token map whenever the request or the formatting of its
  answer throws (in particular when the API call fails). In every case the counter is
  one more than before and one request has been logged, and the API is asked with
  the counter already incremented.
\<close>

theorem fetchPriceData_never_rejects:
  "fetchPriceData e addresses s =
     ((case requestPrices e (apiCallsThisMinute s + 1) (map toLowerCase addresses) of
         Inl err \<Rightarrow> [] | Inr tokens \<Rightarrow> tokens),
      s\<lparr>apiCallsThisMinute := apiCallsThisMinute s + 1,
        requests := requests s @ [map toLowerCase addresses]\<rparr>)
   \<and> (api e (apiCallsThisMinute s + 1) (map toLowerCase addresses) = ApiError
        \<longrightarrow> fst (fetchPriceData e addresses s) = [])
   \<and> apiCallsThisMinute (snd (fetchPriceData e addresses s)) = apiCallsThisMinute s + 1"
  by (simp add: fetchPriceData_def requestPrices_def Let_def split: sum.splits)

theorem fetchPriceData_never_rejects_witness:
  "api apiDown (apiCallsThisMinute twoTokens + 1) (map toLowerCase [''0xA'']) = ApiError
   \<and> fst (fetchPriceData apiDown [''0xA''] twoTokens) = []
   \<and> apiCallsThisMinute (snd (fetchPriceData apiDown [''0xA''] twoTokens)) = 1"
proof -
  have c: "apiCallsThisMinute twoTokens = 0"
    by (simp add: twoTokens_def)
  have down: "api apiDown (apiCallsThisMinute twoTokens + 1) (map toLowerCase [''0xA'']) = ApiError"
    by (simp add: apiDown_def)
  from fetchPriceData_never_rejects [of apiDown "[''0xA'']" twoTokens] down c
  show ?thesis by (simp add: requestPrices_def)
qed

section \<open>Properties of the on-chain pipeline\<close>

subsection \<open>The reference-asset price\<close>

lemma priceFromReference_pos: "0 < priceFromReference t"
  by (simp add: priceFromReference_def Let_def)

lemma fetchWethPrice_cache_ok:
  "cache_ok st \<Longrightarrow> cache_ok (snd (fetchWethPrice nowMs rd st))"
  by (auto simp: cache_ok_def fetchWethPrice_def priceFromReference_pos
           split: option.splits pool_read.splits)

lemma cacheAfter_cache_ok: "cache_ok st \<Longrightarrow> cache_ok (cacheAfter calls st)"
  by (induction calls arbitrary: st) (auto simp: fetchWethPrice_cache_ok)

lemma coldCache_cache_ok: "cache_ok coldCache"
  by (simp add: cache_ok_def coldCache_def)

lemma fetchWethPrice_read_fails:
  "cache_ok st \<Longrightarrow>
   fetchWethPrice nowMs ReadFails st
     = ((case cachedWethPrice st of None \<Rightarrow> 1911 | Some p \<Rightarrow> p), st)
   \<and> 0 < fst (fetchWethPrice nowMs ReadFails st)"
  by (auto simp: cache_ok_def fetchWethPrice_def cachedOrFallback_def split: option.splits)

lemma priceFromReference_next_tick: "priceFromReference (- 200767) = 1911.1911"
proof -
  define r :: real where "r = 1.0001 powi (- 200768)"
  have rpos: "0 < r" by (simp add: r_def)
  have "(1.0001::real) powi (- 200768 + 1) = 1.0001 powi (- 200768) * 1.0001"
    by (rule power_int_add_1) simp
  then have h: "(1.0001::real) powi (- 200767) = r * 1.0001" by (simp add: r_def)
  have "priceFromReference (- 200767) = (r * 1.0001) * (1911 / r)"
    unfolding priceFromReference_def Let_def h r_def by (rule refl)
  also have "\<dots> = 1911.1911" using rpos by simp
  finally show ?thesis .
qed

text \<open>
  C3. In every state the cache can reach from a cold start, a call whose pool read
  fails returns the cached price when there is one and 1911 otherwise, leaves the cache
  as it is, and returns a positive number; on the cold cache it returns 1911. The
  function has no exceptional outcome: it is a total function into prices.
\<close>

theorem fetchWethPrice_fallback:
  "fetchWethPrice nowMs ReadFails (cacheAfter calls coldCache)
     = ((case cachedWethPrice (cacheAfter calls coldCache) of None \<Rightarrow> 1911 | Some p \<Rightarrow> p),
        cacheAfter calls coldCache)
   \<and> 0 < fst (fetchWethPrice nowMs ReadFails (cacheAfter calls coldCache))
   \<and> fetchWethPrice nowMs ReadFails coldCache = (1911, coldCache)"
proof (intro conjI)
  show "fetchWethPrice nowMs ReadFails coldCache = (1911, coldCache)"
    by (simp add: fetchWethPrice_def coldCache_def cachedOrFallback_def)
qed (use fetchWethPrice_read_fails[OF cacheAfter_cache_ok[OF coldCache_cache_ok], of nowMs calls] in blast)+

theorem fetchWethPrice_fallback_witness:
  "fetchWethPrice 1000000 ReadFails (cacheAfter [(0, ReadOk ''weth'' ''usdc'' (- 200767))] coldCache)
     = (1911.1911, cacheAfter [(0, ReadOk ''weth'' ''usdc'' (- 200767))] coldCache)
   \<and> fetchWethPrice 1000000 ReadFails coldCache = (1911, coldCache)"
proof -
  have c: "cachedWethPrice (cacheAfter [(0, ReadOk ''weth'' ''usdc'' (- 200767))] coldCache) = Some 1911.1911"
    by (simp add: fetchWethPrice_def coldCache_def priceFromReference_next_tick)
  from fetchWethPrice_fallback[of 1000000 "[(0, ReadOk ''weth'' ''usdc'' (- 200767))]"] c
  show ?thesis by simp
qed

subsection \<open>The tick price\<close>

lemma calculatePriceFromTick_closed:
  "calculatePriceFromTick t d0 d1 = 1.0001 powi t * 10 powi (d1 - d0)"
proof -
  have "exp (real_of_int t * ln 1.0001) = (1.0001::real) powr real_of_int t"
    by (simp add: powr_def)
  also have "\<dots> = 1.0001 powi t"
    by (rule powr_real_of_int') simp_all
  finally show ?thesis
    by (simp add: calculatePriceFromTick_def Let_def)
qed

lemma calculatePriceFromTick_pos: "0 < calculatePriceFromTick t d0 d1"
  by (simp add: calculatePriceFromTick_closed)

lemma priceInWETH_token1:
  "priceInWETH False d t = 1 / (1.0001 powi t * 10 powi (18 - int d))"
  by (simp add: priceInWETH_def calculatePriceFromTick_closed Let_def)

subsection \<open>Decoding the aggregated response\<close>

lemma length_encodeCalls: "length (encodeCalls as) = 4 * length as"
  by (induction as) (simp_all add: callsFor_def)

lemma encodeCalls_group:
  "k < length as \<Longrightarrow> take 4 (drop (4 * k) (encodeCalls as)) = callsFor (as ! k)"
proof (induction as arbitrary: k)
  case Nil
  then show ?case by simp
next
  case (Cons a as)
  have l: "length (callsFor a) = 4" by (simp add: callsFor_def)
  show ?case
  proof (cases k)
    case 0
    then show ?thesis using l by simp
  next
    case (Suc j)
    then have "j < length as" using Cons.prems by simp
    from Cons.IH[OF this] show ?thesis using l by (simp add: Suc)
  qed
qed

lemma fold_update_fresh:
  "distinct (map fst es) \<Longrightarrow> fst ` set es \<inter> fst ` set acc = {} \<Longrightarrow>
   fold (\<lambda>(k, v). AList.update k v) es acc = acc @ es"
proof (induction es arbitrary: acc)
  case Nil
  then show ?case by simp
next
  case (Cons e es)
  obtain k v where e: "e = (k, v)" by (cases e)
  have "k \<notin> fst ` set acc" using Cons.prems(2) e by auto
  then have u: "AList.update k v acc = acc @ [(k, v)]"
    by (induction acc) auto
  have "fst ` set es \<inter> fst ` set (acc @ [(k, v)]) = {}"
    using Cons.prems e by auto
  with Cons.IH[of "acc @ [(k, v)]"] Cons.prems(1) show ?case
    by (simp add: e u)
qed

lemma decodeResults_closed:
  "length rs = 4 * length as \<Longrightarrow>
   decodeResults dec as rs acc = Inr (fold (\<lambda>(k, v). AList.update k v) (decodedEntries dec as rs) acc)"
proof (induction as arbitrary: rs acc)
  case Nil
  then show ?case by simp
next
  case (Cons a as)
  then obtain r rs' where rs: "rs = r # rs'" by (cases rs) auto
  have "length (drop 3 rs') = 4 * length as" using Cons.prems rs by simp
  from Cons.IH[OF this] show ?case
    by (simp add: rs)
qed

lemma decodedEntries_keys: "map fst (decodedEntries dec as rs) = map toLowerCase as"
  by (induction as arbitrary: rs) auto

lemma decodedEntries_nth:
  "k < length as \<Longrightarrow>
   decodedEntries dec as rs ! k =
     (toLowerCase (as ! k), decodeToken dec (toLowerCase (as ! k)) (drop (4 * k) rs))"
proof (induction as arbitrary: rs k)
  case Nil
  then show ?case by simp
next
  case (Cons a as)
  show ?case
  proof (cases k)
    case 0
    then show ?thesis by simp
  next
    case (Suc j)
    then have "j < length as" using Cons.prems by simp
    from Cons.IH[OF this, of "drop 4 rs"] show ?thesis
      by (simp add: Suc add.commute)
  qed
qed

lemma decodeField_decodable:
  "i < length rs \<Longrightarrow> decodable decode (rs ! i) \<Longrightarrow>
   decodeField decode (at_index rs i) dflt = Inr (fieldOf decode dflt (rs ! i))"
  by (auto simp: decodeField_def at_index_def fieldOf_def decodable_def)

lemma decodeToken_fields:
  assumes "4 \<le> length rs"
      and "decodable (decodeName dec) (rs ! 0)" "decodable (decodeSymbol dec) (rs ! 1)"
          "decodable (decodeDecimals dec) (rs ! 2)" "decodable (decodeTotalSupply dec) (rs ! 3)"
  shows "decodeToken dec a rs =
           basicInfo a (fieldOf (decodeName dec) [] (rs ! 0)) (fieldOf (decodeSymbol dec) [] (rs ! 1))
             (fieldOf (decodeDecimals dec) 18 (rs ! 2)) (fieldOf (decodeTotalSupply dec) ''0'' (rs ! 3))"
proof -
  have "0 < length rs" "1 < length rs" "2 < length rs" "3 < length rs"
    using assms(1) by auto
  then show ?thesis
    using assms(2-5) by (simp add: decodeToken_def decodeField_decodable)
qed

text \<open>
  C7. The request holds four calls per token, those of the token at position \<open>k\<close> at
  positions \<open>4k\<close> to \<open>4k + 3\<close>. When the aggregated call returns four results per
  token and the lower-cased addresses are distinct, the decoded map has one entry per
  token, in the order of the input, and the entry of the token at position \<open>k\<close> is
  decoded from the results at positions \<open>4k\<close> to \<open>4k + 3\<close>. If every successful call of that group returned
  decodable data, each of the four fields is the decoded value of its own call when
  that call succeeded and its default (empty name and symbol, 18 decimals, total
  supply "0") when it failed, whatever the other three calls did. The function returns
  a map in every case.
\<close>

theorem getTokensBasicInfo_in_order:
  assumes "length results = 4 * length tokenAddresses"
      and "distinct (map toLowerCase tokenAddresses)"
      and "k < length tokenAddresses"
  shows "length (encodeCalls tokenAddresses) = 4 * length tokenAddresses
       \<and> take 4 (drop (4 * k) (encodeCalls tokenAddresses)) = callsFor (tokenAddresses ! k)
       \<and> map fst (getTokensBasicInfo dec tokenAddresses (Some results)) = map toLowerCase tokenAddresses
       \<and> map_of (getTokensBasicInfo dec tokenAddresses (Some results)) (toLowerCase (tokenAddresses ! k))
           = Some (decodeToken dec (toLowerCase (tokenAddresses ! k)) (drop (4 * k) results))
       \<and> (decodable (decodeName dec) (results ! (4 * k))
            \<and> decodable (decodeSymbol dec) (results ! (4 * k + 1))
            \<and> decodable (decodeDecimals dec) (results ! (4 * k + 2))
            \<and> decodable (decodeTotalSupply dec) (results ! (4 * k + 3))
          \<longrightarrow> decodeToken dec (toLowerCase (tokenAddresses ! k)) (drop (4 * k) results)
              = basicInfo (toLowerCase (tokenAddresses ! k))
                  (fieldOf (decodeName dec) [] (results ! (4 * k)))
                  (fieldOf (decodeSymbol dec) [] (results ! (4 * k + 1)))
                  (fieldOf (decodeDecimals dec) 18 (results ! (4 * k + 2)))
                  (fieldOf (decodeTotalSupply dec) ''0'' (results ! (4 * k + 3))))
       \<and> (\<forall>decode dflt r. \<not> success r \<longrightarrow> fieldOf decode dflt r = dflt)"
proof -
  let ?es = "decodedEntries dec tokenAddresses results"
  have d: "distinct (map fst ?es)" using assms(2) by (simp add: decodedEntries_keys)
  have g: "getTokensBasicInfo dec tokenAddresses (Some results) = ?es"
    using decodeResults_closed[OF assms(1), of dec "[]"] fold_update_fresh[OF d, of "[]"]
    by (simp add: getTokensBasicInfo_def)
  have len: "k < length ?es" using assms(3)
    by (metis decodedEntries_keys length_map)
  have "?es ! k \<in> set ?es" using len by simp
  then have m: "map_of ?es (toLowerCase (tokenAddresses ! k))
           = Some (decodeToken dec (toLowerCase (tokenAddresses ! k)) (drop (4 * k) results))"
    using d decodedEntries_nth[OF assms(3), of dec results] by (simp add: map_of_is_SomeI)
  have l4: "4 \<le> length (drop (4 * k) results)" using assms(1,3) by simp
  have idx: "drop (4 * k) results ! 0 = results ! (4 * k)"
       "drop (4 * k) results ! 1 = results ! (4 * k + 1)"
       "drop (4 * k) results ! 2 = results ! (4 * k + 2)"
       "drop (4 * k) results ! 3 = results ! (4 * k + 3)"
    using assms(1,3) by simp_all
  have f: "decodable (decodeName dec) (results ! (4 * k))
            \<and> decodable (decodeSymbol dec) (results ! (4 * k + 1))
            \<and> decodable (decodeDecimals dec) (results ! (4 * k + 2))
            \<and> decodable (decodeTotalSupply dec) (results ! (4 * k + 3))
          \<longrightarrow> decodeToken dec (toLowerCase (tokenAddresses ! k)) (drop (4 * k) results)
              = basicInfo (toLowerCase (tokenAddresses ! k))
                  (fieldOf (decodeName dec) [] (results ! (4 * k)))
                  (fieldOf (decodeSymbol dec) [] (results ! (4 * k + 1)))
                  (fieldOf (decodeDecimals dec) 18 (results ! (4 * k + 2)))
                  (fieldOf (decodeTotalSupply dec) ''0'' (results ! (4 * k + 3)))"
  proof
    assume a: "decodable (decodeName dec) (results ! (4 * k))
            \<and> decodable (decodeSymbol dec) (results ! (4 * k + 1))
            \<and> decodable (decodeDecimals dec) (results ! (4 * k + 2))
            \<and> decodable (decodeTotalSupply dec) (results ! (4 * k + 3))"
    have "decodeToken dec (toLowerCase (tokenAddresses ! k)) (drop (4 * k) results)
            = basicInfo (toLowerCase (tokenAddresses ! k))
                (fieldOf (decodeName dec) [] (drop (4 * k) results ! 0))
                (fieldOf (decodeSymbol dec) [] (drop (4 * k) results ! 1))
                (fieldOf (decodeDecimals dec) 18 (drop (4 * k) results ! 2))
                (fieldOf (decodeTotalSupply dec) ''0'' (drop (4 * k) results ! 3))"
      by (rule decodeToken_fields[OF l4]) (simp_all only: idx a)
    then show "decodeToken dec (toLowerCase (tokenAddresses ! k)) (drop (4 * k) results)
              = basicInfo (toLowerCase (tokenAddresses ! k))
                  (fieldOf (decodeName dec) [] (results ! (4 * k)))
                  (fieldOf (decodeSymbol dec) [] (results ! (4 * k + 1)))
                  (fieldOf (decodeDecimals dec) 18 (results ! (4 * k + 2)))
                  (fieldOf (decodeTotalSupply dec) ''0'' (results ! (4 * k + 3)))"
      by (simp only: idx)
  qed
  have n: "\<forall>decode dflt r. \<not> success r \<longrightarrow> fieldOf decode dflt r = dflt"
    by (simp add: fieldOf_def)
  have keys: "map fst ?es = map toLowerCase tokenAddresses"
    by (rule decodedEntries_keys)
  show ?thesis
    unfolding g
    by (intro conjI keys m f n length_encodeCalls encodeCalls_group[OF assms(3)])
qed

theorem getTokensBasicInfo_in_order_witness:
  "map fst (getTokensBasicInfo plainDecoders [''0xA'', ''0xb'']
       (Some [failed, ok ''AAA'', ok [], failed, ok ''Beta'', ok ''BET'', ok ''06'', ok ''1000000'']))
     = [''0xa'', ''0xb'']
   \<and> map_of (getTokensBasicInfo plainDecoders [''0xA'', ''0xb'']
       (Some [failed, ok ''AAA'', ok [], failed, ok ''Beta'', ok ''BET'', ok ''06'', ok ''1000000'']))
       ''0xa''
     = Some (basicInfo ''0xa'' [] ''AAA'' 6 ''0'')"
proof -
  let ?rs = "[failed, ok ''AAA'', ok [], failed, ok ''Beta'', ok ''BET'', ok ''06'', ok ''1000000'']"
  have low: "toLowerCase ''0xA'' = ''0xa''" "toLowerCase ''0xb'' = ''0xb''"
    by code_simp+
  have l: "length ?rs = 4 * length [''0xA'', ''0xb'']" by simp
  have d: "distinct (map toLowerCase [''0xA'', ''0xb''])" by (simp add: low)
  have k: "0 < length [''0xA'', ''0xb'']" by simp
  have dc: "decodable (decodeName plainDecoders) (?rs ! (4 * 0))
            \<and> decodable (decodeSymbol plainDecoders) (?rs ! (4 * 0 + 1))
            \<and> decodable (decodeDecimals plainDecoders) (?rs ! (4 * 0 + 2))
            \<and> decodable (decodeTotalSupply plainDecoders) (?rs ! (4 * 0 + 3))"
    by (simp add: decodable_def plainDecoders_def failed_def ok_def)
  from getTokensBasicInfo_in_order[OF l d k, of plainDecoders] dc
  show ?thesis
    by (simp add: low fieldOf_def plainDecoders_def failed_def ok_def)
qed

subsection \<open>Persisting a batch\<close>

lemma map_of_upsertDoc:
  "map_of (upsertDoc d store) k =
     (if k = contractAddress d
      then Some (case map_of store (contractAddress d) of
          None \<Rightarrow> token_doc.extend d (gecko_data.fields 0 0)
        | Some old \<Rightarrow> token_doc.extend d (gecko_data.fields (gd_volume_usd old) (gd_liquidity_usd old)))
      else map_of store k)"
  by (simp add: upsertDoc_def update_conv')

lemma fold_upsertDoc_other:
  "k \<notin> contractAddress ` set ds \<Longrightarrow> map_of (fold upsertDoc ds store) k = map_of store k"
  by (induction ds arbitrary: store) (auto simp: map_of_upsertDoc)

lemma fold_upsertDoc_stored:
  assumes "d \<in> set ds" and "distinct (map contractAddress ds)"
  shows "map_of (fold upsertDoc ds store) (contractAddress d) =
           Some (case map_of store (contractAddress d) of
                   None \<Rightarrow> token_doc.extend d (gecko_data.fields 0 0)
                 | Some old \<Rightarrow> token_doc.extend d
                              (gecko_data.fields (gd_volume_usd old) (gd_liquidity_usd old)))"
  using assms
proof (induction ds arbitrary: store)
  case Nil
  then show ?case by simp
next
  case (Cons x ds)
  show ?case
  proof (cases "x = d")
    case True
    then have "contractAddress d \<notin> contractAddress ` set ds" using Cons.prems(2) by auto
    then show ?thesis using True
      by (simp add: fold_upsertDoc_other map_of_upsertDoc)
  next
    case False
    then have d: "d \<in> set ds" using Cons.prems(1) by simp
    then have ne: "contractAddress x \<noteq> contractAddress d" using Cons.prems(2) by auto
    have "map_of (upsertDoc x store) (contractAddress d) = map_of store (contractAddress d)"
      using ne by (simp add: map_of_upsertDoc)
    then show ?thesis using Cons.IH[OF d, of "upsertDoc x store"] Cons.prems(2) by simp
  qed
qed

lemma enrich_keys: "map fst (enrichWithPoolData est w xs) = map fst xs"
  by (induction xs rule: enrichWithPoolData.induct) (auto split: prod.splits option.splits)

lemma enrich_keeps_poolless:
  "(k, td) \<in> set xs \<Longrightarrow> ti_pools td = [] \<Longrightarrow> (k, td) \<in> set (enrichWithPoolData est w xs)"
proof (induction xs rule: enrichWithPoolData.induct)
  case (1 est w)
  then show ?case by simp
next
  case (2 est w a t rest)
  show ?case
  proof (cases "(k, td) = (a, t)")
    case True
    then have "enrichToken est w a t = (t, None)" using 2(3) by (simp add: enrichToken_def)
    then show ?thesis using True by simp
  next
    case False
    then have "(k, td) \<in> set rest" using 2(2) by auto
    then show ?thesis using 2(1) 2(3)
      by (cases "enrichToken est w a t") (auto split: option.splits)
  qed
qed

lemma attachPools_keys: "map fst (attachPools tpm pdm batch info) = map fst info"
  by (induction info) (auto simp: attachPools_def)

lemma attachPools_poolless:
  assumes "(token, bi) \<in> set info" and "tpm token = None \<or> tpm token = Some []"
  shows "\<exists>td. (token, td) \<in> set (attachPools tpm pdm batch info) \<and> ti_pools td = []
           \<and> numOr (ti_pool_count td) 0 = 0 \<and> ti_price_usd td = None \<and> ti_market_cap td = None
           \<and> ti_main_pool_address td = None \<and> ti_main_dex td = None \<and> ti_main_pool_tick td = None"
proof (cases "token \<in> toLowerCase ` set batch")
  case True
  then have "(token, withPools tpm pdm token bi) \<in> set (attachPools tpm pdm batch info)"
    using assms(1) by (auto simp: attachPools_def intro!: image_eqI[where x="(token, bi)"])
  then show ?thesis using assms(2)
    by (intro exI[of _ "withPools tpm pdm token bi"])
       (auto simp: withPools_def numOr_def basic_info.defs token_info.defs)
next
  case False
  then have "(token, unenriched bi) \<in> set (attachPools tpm pdm batch info)"
    using assms(1) by (auto simp: attachPools_def intro!: image_eqI[where x="(token, bi)"])
  then show ?thesis
    by (intro exI[of _ "unenriched bi"])
       (auto simp: unenriched_def numOr_def basic_info.defs token_info.defs)
qed

text \<open>
  A token of the basic-info map for which discovery found no pool is written to the
  collection under its lower-cased address with pool count 0, price 0, market cap 0 and
  empty main-pool fields. The document that is \<open>$set\<close> names no \<open>liquidity_usd\<close>, so
  that field of the stored document is the schema default 0 when the upsert creates the
  document and is left as it was when the document exists.
\<close>

lemma storeBatch_poolless:
  assumes "(token, bi) \<in> set tokenBasicInfo"
      and "distinct (map (\<lambda>(k, v). toLowerCase k) tokenBasicInfo)"
      and "tokenPoolsMap token = None \<or> tokenPoolsMap token = Some []"
  shows "\<exists>doc. map_of (snd (storeBatch est w date tokenPoolsMap poolDataMap batch tokenBasicInfo store))
                  (toLowerCase token) = Some doc
           \<and> contractAddress doc = toLowerCase token
           \<and> doc_pool_count doc = 0 \<and> doc_price_usd doc = 0 \<and> doc_market_cap doc = 0
           \<and> doc_main_dex doc = [] \<and> doc_main_pool_address doc = [] \<and> doc_main_pool_tick doc = 0
           \<and> gd_liquidity_usd doc =
               (case map_of store (toLowerCase token) of None \<Rightarrow> 0
                | Some old \<Rightarrow> gd_liquidity_usd old)"
proof -
  let ?att = "attachPools tokenPoolsMap poolDataMap batch tokenBasicInfo"
  let ?enr = "enrichWithPoolData est w ?att"
  let ?docs = "map (\<lambda>(address, tokenData). tokenDoc date address tokenData) ?enr"
  from attachPools_poolless[of token bi tokenBasicInfo tokenPoolsMap poolDataMap batch] assms(1,3)
  obtain td where td: "(token, td) \<in> set ?att" "ti_pools td = []"
      "numOr (ti_pool_count td) 0 = 0" "ti_price_usd td = None" "ti_market_cap td = None"
      "ti_main_pool_address td = None" "ti_main_dex td = None" "ti_main_pool_tick td = None"
    by blast
  have "(token, td) \<in> set ?enr" using td(1,2) by (rule enrich_keeps_poolless)
  then have din: "tokenDoc date token td \<in> set ?docs" by force
  have "map contractAddress ?docs = map (\<lambda>k. toLowerCase k) (map fst ?enr)"
    by (simp add: tokenDoc_def case_prod_unfold comp_def)
  also have "\<dots> = map (\<lambda>(k, v). toLowerCase k) tokenBasicInfo"
    by (simp add: enrich_keys attachPools_keys case_prod_unfold comp_def)
  finally have dist: "distinct (map contractAddress ?docs)" using assms(2) by simp
  have ca: "contractAddress (tokenDoc date token td) = toLowerCase token"
    by (simp add: tokenDoc_def)
  from fold_upsertDoc_stored[OF din dist, of store]
  have st: "map_of (snd (storeBatch est w date tokenPoolsMap poolDataMap batch tokenBasicInfo store))
              (toLowerCase token) =
           Some (case map_of store (toLowerCase token) of
                   None \<Rightarrow> token_doc.extend (tokenDoc date token td) (gecko_data.fields 0 0)
                 | Some old \<Rightarrow> token_doc.extend (tokenDoc date token td)
                              (gecko_data.fields (gd_volume_usd old) (gd_liquidity_usd old)))"
    by (simp add: storeBatch_def processAndStoreTokensData_def Let_def ca)
  show ?thesis
    unfolding st using td
    by (cases "map_of store (toLowerCase token)")
       (simp_all add: tokenDoc_def numOr_def strOr_def token_doc.defs gecko_data.defs)
qed

text \<open>
  No write of \<open>processAndStoreTokensData\<close> names \<open>liquidity_usd\<close>: in the collection
  that the batches build, the field is the schema default 0 in every document.
\<close>

lemma upsertDoc_liquidity:
  assumes "\<forall>k d. map_of store k = Some d \<longrightarrow> gd_liquidity_usd d = 0"
      and "map_of (upsertDoc x store) k = Some d"
  shows "gd_liquidity_usd d = 0"
  using assms
  by (auto simp: map_of_upsertDoc token_doc.defs gecko_data.defs split: if_splits option.splits)

lemma fold_upsertDoc_liquidity:
  assumes "\<forall>k d. map_of store k = Some d \<longrightarrow> gd_liquidity_usd d = 0"
  shows "\<forall>k d. map_of (fold upsertDoc ds store) k = Some d \<longrightarrow> gd_liquidity_usd d = 0"
  using assms
proof (induction ds arbitrary: store)
  case Nil
  then show ?case by simp
next
  case (Cons x ds)
  have "\<forall>k d. map_of (upsertDoc x store) k = Some d \<longrightarrow> gd_liquidity_usd d = 0"
    using upsertDoc_liquidity[OF Cons.prems] by blast
  from Cons.IH[OF this] show ?case by simp
qed

lemma runBatch_liquidity:
  assumes "\<forall>k d. map_of store k = Some d \<longrightarrow> gd_liquidity_usd d = 0"
  shows "\<forall>k d. map_of (runBatch est b store) k = Some d \<longrightarrow> gd_liquidity_usd d = 0"
  using fold_upsertDoc_liquidity[OF assms]
  by (simp add: runBatch_def storeBatch_def processAndStoreTokensData_def Let_def)

lemma fold_runBatch_liquidity:
  assumes "\<forall>k d. map_of store k = Some d \<longrightarrow> gd_liquidity_usd d = 0"
  shows "\<forall>k d. map_of (fold (runBatch est) bs store) k = Some d \<longrightarrow> gd_liquidity_usd d = 0"
  using assms
proof (induction bs arbitrary: store)
  case Nil
  then show ?case by simp
next
  case (Cons b bs)
  from Cons.IH[OF runBatch_liquidity[OF Cons.prems, of est b]] show ?case by simp
qed

lemma collectionAfter_liquidity:
  "map_of (collectionAfter est bs) k = Some d \<Longrightarrow> gd_liquidity_usd d = 0"
  using fold_runBatch_liquidity[of "[]" est bs] by (simp add: collectionAfter_def)

lemma toLowerCase_0xb: "toLowerCase ''0xb'' = ''0xb''"
  by (simp add: toLowerCase_def lowerChar_def)

lemma toLowerCase_0xB: "toLowerCase ''0xB'' = ''0xb''"
  by code_simp

text \<open>
  After the batch \<open>pooledBatch\<close> the collection holds a document for 0xb with one pool
  and the main pool 0xp2; its \<open>liquidity_usd\<close> is 0.
\<close>

lemma collectionAfter_pooledBatch:
  "map (\<lambda>(k, doc). (k, doc_pool_count doc, doc_main_pool_address doc, gd_liquidity_usd doc))
       (collectionAfter flatEstimators [pooledBatch])
     = [(''0xb'', 1, ''0xp2'', 0)]"
  by (simp add: collectionAfter_def runBatch_def pooledBatch_def storeBatch_def attachPools_def
        toLowerCase_0xB withPools_def enrichToken_def
        basic_info.defs token_info.defs token_doc.defs gecko_data.defs
        processAndStoreTokensData_def tokenDoc_def toLowerCase_0xb upsertDoc_def numOr_def
        strOr_def betaInfo_def basicInfo_def poolOf_def BigInt_def digit_def noSelection_def
        priceToken_def Let_def flatEstimators_def)

text \<open>
  C5. A token of the decoded batch for which pool discovery found no pool is still
  persisted: after the batch, the collection (built by any earlier batches from an
  empty collection) holds a document under the token's lower-cased address, with
  \<open>pool_count\<close> 0, \<open>price_usd\<close> 0, \<open>liquidity_usd\<close> 0 and \<open>market_cap\<close> 0; its
  main-pool fields are empty.
\<close>

theorem zero_pool_token_persisted:
  assumes "(token, bi) \<in> set tokenBasicInfo"
      and "distinct (map (\<lambda>(k, v). toLowerCase k) tokenBasicInfo)"
      and "tokenPoolsMap token = None \<or> tokenPoolsMap token = Some []"
  shows "\<exists>doc. map_of (snd (storeBatch est w date tokenPoolsMap poolDataMap batch tokenBasicInfo
                               (collectionAfter est earlier)))
                  (toLowerCase token) = Some doc
           \<and> contractAddress doc = toLowerCase token
           \<and> doc_pool_count doc = 0 \<and> doc_price_usd doc = 0 \<and> gd_liquidity_usd doc = 0
           \<and> doc_market_cap doc = 0
           \<and> doc_main_dex doc = [] \<and> doc_main_pool_address doc = [] \<and> doc_main_pool_tick doc = 0"
proof -
  from storeBatch_poolless[where token = token and tokenPoolsMap = tokenPoolsMap
         and store = "collectionAfter est earlier" and est = est and w = w and date = date
         and poolDataMap = poolDataMap and batch = batch, OF assms]
  obtain doc where doc: "map_of (snd (storeBatch est w date tokenPoolsMap poolDataMap batch tokenBasicInfo
                               (collectionAfter est earlier)))
                  (toLowerCase token) = Some doc"
      "contractAddress doc = toLowerCase token"
      "doc_pool_count doc = 0" "doc_price_usd doc = 0" "doc_market_cap doc = 0"
      "doc_main_dex doc = []" "doc_main_pool_address doc = []" "doc_main_pool_tick doc = 0"
      "gd_liquidity_usd doc =
               (case map_of (collectionAfter est earlier) (toLowerCase token) of None \<Rightarrow> 0
                | Some old \<Rightarrow> gd_liquidity_usd old)"
    by blast
  have "gd_liquidity_usd doc = 0"
    unfolding doc(9)
    by (cases "map_of (collectionAfter est earlier) (toLowerCase token)")
       (simp_all add: collectionAfter_liquidity)
  then show ?thesis using doc by blast
qed

theorem zero_pool_token_persisted_witness:
  "\<exists>doc. map_of (snd (storeBatch flatEstimators 1911 9 Map.empty Map.empty [''0xB'']
                        [(''0xb'', betaInfo)] (collectionAfter flatEstimators [pooledBatch]))) ''0xb''
            = Some doc
         \<and> contractAddress doc = ''0xb''
         \<and> doc_pool_count doc = 0 \<and> doc_price_usd doc = 0 \<and> gd_liquidity_usd doc = 0
         \<and> doc_market_cap doc = 0"
proof -
  have m: "(''0xb'', betaInfo) \<in> set [(''0xb'', betaInfo)]" by simp
  have d: "distinct (map (\<lambda>(k, v). toLowerCase k) [(''0xb'', betaInfo)])" by simp
  have n: "Map.empty ''0xb'' = None \<or> Map.empty ''0xb'' = Some []" by simp
  from zero_pool_token_persisted[OF m d n, of flatEstimators 1911 9 Map.empty "[''0xB'']"
         "[pooledBatch]"]
  show ?thesis by (auto simp: toLowerCase_0xb)
qed

subsection \<open>Choosing the main pool\<close>

lemma selectMainPool_spec:
  assumes "\<forall>p. Some p \<in> set ps \<longrightarrow> decimalLiquidity p" and "consistent sel"
  shows "\<exists>sel'. selectMainPool ps sel = (sel', None) \<and> consistent sel'
          \<and> highestLiquidity sel \<le> highestLiquidity sel'
          \<and> (\<forall>q. Some q \<in> set ps \<and> candidate q \<longrightarrow> liquidityValue q \<le> highestLiquidity sel')
          \<and> (bestPool sel' = bestPool sel \<or> bestPool sel' \<in> set ps)
          \<and> (highestLiquidity sel' = highestLiquidity sel \<longrightarrow> sel' = sel)"
  using assms
proof (induction ps sel rule: selectMainPool.induct)
  case (1 sel)
  then show ?case by simp
next
  case (2 ps sel)
  then show ?case by auto
next
  case (3 p ps sel)
  have dl: "decimalLiquidity p" using 3(6) by simp
  have rest: "\<forall>q. Some q \<in> set ps \<longrightarrow> decimalLiquidity q" using 3(6) by simp
  show ?case
  proof (cases "candidate p")
    case False
    then have eq: "selectMainPool (Some p # ps) sel = selectMainPool ps sel"
      by (auto simp: candidate_def split: option.splits)
    have ih: "\<exists>sel'. selectMainPool ps sel = (sel', None) \<and> consistent sel'
          \<and> highestLiquidity sel \<le> highestLiquidity sel'
          \<and> (\<forall>q. Some q \<in> set ps \<and> candidate q \<longrightarrow> liquidityValue q \<le> highestLiquidity sel')
          \<and> (bestPool sel' = bestPool sel \<or> bestPool sel' \<in> set ps)
          \<and> (highestLiquidity sel' = highestLiquidity sel \<longrightarrow> sel' = sel)"
      using False 3(1,2,3,5) rest 3(7)
      by (cases "pool_liquidity p"; cases "pool_tick p"; cases "the (pool_liquidity p) = []")
         (auto simp: candidate_def)
    then show ?thesis unfolding eq using False by auto
  next
    case True
    then obtain l t where l: "pool_liquidity p = Some l" "l \<noteq> []" and t: "pool_tick p = Some t"
      by (auto simp: candidate_def)
    from dl l obtain n where n: "digits l 0 = Some n"
      by (auto simp: decimalLiquidity_def)
    then have big: "BigInt l = Inr (int n)" by (simp add: BigInt_def)
    have lv: "liquidityValue p = int n" by (simp add: liquidityValue_def l big)
    show ?thesis
    proof (cases "int n > highestLiquidity sel")
      case gt: True
      let ?new = "\<lparr> highestLiquidity = int n, bestPool = Some p,
                                  mainPoolAddress = pool_address p, mainPoolTick = t,
                                  main_dex = Some (pool_dex p) \<rparr>"
      have eq: "selectMainPool (Some p # ps) sel = selectMainPool ps ?new"
        using l t big gt by simp
      have hl0: "0 \<le> highestLiquidity sel" using 3(7) by (auto simp: consistent_def split: option.splits)
      have c: "consistent ?new" using True lv gt hl0 t by (simp add: consistent_def)
      from 3(4)[OF l(1) l(2) t big gt rest c]
      obtain sel' where s: "selectMainPool ps ?new = (sel', None)" "consistent sel'"
          "int n \<le> highestLiquidity sel'"
          "\<forall>q. Some q \<in> set ps \<and> candidate q \<longrightarrow> liquidityValue q \<le> highestLiquidity sel'"
          "bestPool sel' = Some p \<or> bestPool sel' \<in> set ps"
        by auto
      show ?thesis unfolding eq using s gt lv by auto
    next
      case le: False
      have eq: "selectMainPool (Some p # ps) sel = selectMainPool ps sel"
        using l t big le by simp
      from 3(5)[OF l(1) l(2) t big le rest 3(7)]
      obtain sel' where s: "selectMainPool ps sel = (sel', None)" "consistent sel'"
          "highestLiquidity sel \<le> highestLiquidity sel'"
          "\<forall>q. Some q \<in> set ps \<and> candidate q \<longrightarrow> liquidityValue q \<le> highestLiquidity sel'"
          "bestPool sel' = bestPool sel \<or> bestPool sel' \<in> set ps"
          "highestLiquidity sel' = highestLiquidity sel \<longrightarrow> sel' = sel"
        by auto
      show ?thesis unfolding eq using s le lv by auto
    qed
  qed
qed

lemma consistent_noSelection: "consistent (noSelection d)"
  by (simp add: consistent_def noSelection_def)

lemma enrichToken_selected:
  assumes "ti_pools td \<noteq> []"
      and "selectMainPool (ti_pools td) (noSelection (ti_main_dex td)) = (sel, None)"
  shows "enrichToken est w a td =
           (priceToken est w a sel (td\<lparr>ti_pool_count := Some (length (ti_pools td))\<rparr>), None)"
  using assms by (simp add: enrichToken_def Let_def)

lemma priceToken_main_fields:
  "ti_main_dex (priceToken est w a sel td) = main_dex sel
   \<and> ti_main_pool_address (priceToken est w a sel td) = Some (mainPoolAddress sel)
   \<and> ti_main_pool_tick (priceToken est w a sel td) = Some (mainPoolTick sel)"
  by (simp add: priceToken_def Let_def split: prod.splits)

lemma priceToken_price:
  assumes "bestPool sel = Some b" "pool_tick b = Some t"
  shows "ti_price_usd (priceToken est w a sel td) =
           Some (priceInWETH (toLowerCase (pool_token0 b) = toLowerCase a) (bi_decimals td) t * w)"
  using assms by (simp add: priceToken_def Let_def split: prod.splits)

lemma priceToken_no_best:
  assumes "bestPool sel = None"
  shows "ti_price_usd (priceToken est w a sel td) = Some 0
         \<and> ti_liquidity_usd (priceToken est w a sel td) = Some 0
         \<and> ti_market_cap (priceToken est w a sel td) = ti_market_cap td"
  using assms by (simp add: priceToken_def Let_def)

lemma toLowerCase_WETH: "toLowerCase (toLowerCase WETH_ADDRESS) \<noteq> ''0xb''"
  by (simp add: toLowerCase_def lowerChar_def WETH_ADDRESS_def)

lemma liquidityValue_poolOf:
  "liquidityValue (poolOf a ''100'' t) = 100"
  "liquidityValue (poolOf a ''500000'' t) = 500000"
  "liquidityValue (poolOf a ''0'' t) = 0"
  by (simp_all add: liquidityValue_def poolOf_def BigInt_def digit_def)

lemma candidate_poolOf: "candidate (poolOf a l t) = (l \<noteq> [])"
  by (simp add: candidate_def poolOf_def)

lemma decimalLiquidity_poolOf:
  "decimalLiquidity (poolOf a ''100'' t)" "decimalLiquidity (poolOf a ''500000'' t)"
  "decimalLiquidity (poolOf a ''0'' t)"
  by (simp_all add: decimalLiquidity_def poolOf_def digit_def)

lemma pools_betaWith: "ti_pools (betaWith ps) = ps" "bi_decimals (betaWith ps) = 6"
   "ti_main_dex (betaWith ps) = None"
  by (simp_all add: betaWith_def betaInfo_def basicInfo_def basic_info.defs token_info.defs)

lemma select_single:
  "selectMainPool [Some (poolOf ''0xp2'' ''500000'' 0)] (noSelection None) =
     (\<lparr> highestLiquidity = 500000, bestPool = Some (poolOf ''0xp2'' ''500000'' 0),
        mainPoolAddress = ''0xp2'', mainPoolTick = 0, main_dex = Some ''Uniswap V3'' \<rparr>, None)"
  by (simp add: poolOf_def BigInt_def digit_def noSelection_def)

text \<open>
  The comparison is exact: of two liquidities that differ only beyond the precision of a
  double (2^53 and 2^53 + 1), the larger wins.
\<close>

lemma main_pool_beyond_double_precision:
  "bestPool (fst (selectMainPool
       [Some (poolOf ''0xp1'' ''9007199254740992'' 0), Some (poolOf ''0xp2'' ''9007199254740993'' 0)]
       (noSelection None)))
     = Some (poolOf ''0xp2'' ''9007199254740993'' 0)"
  by (simp add: poolOf_def BigInt_def digit_def noSelection_def)

text \<open>
  A pool without tick data is passed over whatever its liquidity: of a pool with
  liquidity 1000 and no tick and a pool with liquidity 10 and a tick, the second is the
  best pool.
\<close>

lemma main_pool_needs_tick:
  "bestPool (fst (selectMainPool
       [Some ((poolOf ''0xp1'' ''1000'' 0)\<lparr>pool_tick := None\<rparr>), Some (poolOf ''0xp2'' ''10'' 3)]
       (noSelection None)))
     = Some (poolOf ''0xp2'' ''10'' 3)"
  by (simp add: poolOf_def BigInt_def digit_def noSelection_def)

text \<open>
  C4 (as amended). For a token with at least one discovered pool, every liquidity string
  among its pools being a decimal number, the enrichment of the token ends normally.
  Among the token's pools that carry both a liquidity string and tick data: if one of
  them has a liquidity greater than 0, the DEX label, address and tick recorded on the
  token are those of such a pool \<open>b\<close>, whose liquidity is positive and, compared as an
  integer, at least that of every pool carrying both; if none has a liquidity greater
  than 0, no main pool is chosen: the DEX label is left as it was, the recorded address
  is the empty string, the tick 0, price and liquidity 0, and the market cap is left as
  it was.
\<close>

theorem main_pool_has_largest_liquidity:
  assumes "\<forall>q. Some q \<in> set (ti_pools td) \<longrightarrow> decimalLiquidity q"
      and "ti_pools td \<noteq> []"
  shows "snd (enrichToken est w a td) = None
         \<and> ((\<exists>p. Some p \<in> set (ti_pools td) \<and> candidate p \<and> 0 < liquidityValue p) \<longrightarrow>
              (\<exists>b. Some b \<in> set (ti_pools td) \<and> candidate b \<and> 0 < liquidityValue b
                 \<and> (\<forall>q. Some q \<in> set (ti_pools td) \<and> candidate q
                        \<longrightarrow> liquidityValue q \<le> liquidityValue b)
                 \<and> ti_main_dex (fst (enrichToken est w a td)) = Some (pool_dex b)
                 \<and> ti_main_pool_address (fst (enrichToken est w a td)) = Some (pool_address b)
                 \<and> ti_main_pool_tick (fst (enrichToken est w a td)) = pool_tick b))
         \<and> (\<not> (\<exists>p. Some p \<in> set (ti_pools td) \<and> candidate p \<and> 0 < liquidityValue p) \<longrightarrow>
              ti_main_dex (fst (enrichToken est w a td)) = ti_main_dex td
              \<and> ti_main_pool_address (fst (enrichToken est w a td)) = Some []
              \<and> ti_main_pool_tick (fst (enrichToken est w a td)) = Some 0
              \<and> ti_price_usd (fst (enrichToken est w a td)) = Some 0
              \<and> ti_liquidity_usd (fst (enrichToken est w a td)) = Some 0
              \<and> ti_market_cap (fst (enrichToken est w a td)) = ti_market_cap td)"
proof -
  let ?td1 = "td\<lparr>ti_pool_count := Some (length (ti_pools td))\<rparr>"
  from selectMainPool_spec[OF assms(1) consistent_noSelection, of "ti_main_dex td"]
  obtain sel where sel: "selectMainPool (ti_pools td) (noSelection (ti_main_dex td)) = (sel, None)"
      "consistent sel"
      "\<forall>q. Some q \<in> set (ti_pools td) \<and> candidate q \<longrightarrow> liquidityValue q \<le> highestLiquidity sel"
      "bestPool sel = bestPool (noSelection (ti_main_dex td)) \<or> bestPool sel \<in> set (ti_pools td)"
      "highestLiquidity sel = highestLiquidity (noSelection (ti_main_dex td))
         \<longrightarrow> sel = noSelection (ti_main_dex td)"
    by blast
  have e: "enrichToken est w a td = (priceToken est w a sel ?td1, None)"
    by (rule enrichToken_selected[OF assms(2) sel(1)])
  have fields: "ti_main_dex (priceToken est w a sel ?td1) = main_dex sel"
      "ti_main_pool_address (priceToken est w a sel ?td1) = Some (mainPoolAddress sel)"
      "ti_main_pool_tick (priceToken est w a sel ?td1) = Some (mainPoolTick sel)"
    using priceToken_main_fields[of est w a sel ?td1] by simp_all
  have ended: "snd (enrichToken est w a td) = None" by (simp add: e)
  have some: "\<exists>b. Some b \<in> set (ti_pools td) \<and> candidate b \<and> 0 < liquidityValue b
                 \<and> (\<forall>q. Some q \<in> set (ti_pools td) \<and> candidate q
                        \<longrightarrow> liquidityValue q \<le> liquidityValue b)
                 \<and> ti_main_dex (fst (enrichToken est w a td)) = Some (pool_dex b)
                 \<and> ti_main_pool_address (fst (enrichToken est w a td)) = Some (pool_address b)
                 \<and> ti_main_pool_tick (fst (enrichToken est w a td)) = pool_tick b"
    if "\<exists>p. Some p \<in> set (ti_pools td) \<and> candidate p \<and> 0 < liquidityValue p"
  proof -
    from that obtain p where p: "Some p \<in> set (ti_pools td)" "candidate p" "0 < liquidityValue p"
      by blast
    have hp: "0 < highestLiquidity sel" using sel(3) p by fastforce
    then obtain b where b: "bestPool sel = Some b"
      using sel(2) by (cases "bestPool sel") (auto simp: consistent_def)
    have cb: "candidate b" "liquidityValue b = highestLiquidity sel"
        "mainPoolAddress sel = pool_address b" "pool_tick b = Some (mainPoolTick sel)"
        "main_dex sel = Some (pool_dex b)"
      using sel(2) b by (simp_all add: consistent_def)
    have inb: "Some b \<in> set (ti_pools td)"
      using sel(4) b by (simp add: noSelection_def)
    show ?thesis
      using inb cb sel(3) hp fields by (intro exI[of _ b]) (simp add: e)
  qed
  have none: "ti_main_dex (fst (enrichToken est w a td)) = ti_main_dex td
              \<and> ti_main_pool_address (fst (enrichToken est w a td)) = Some []
              \<and> ti_main_pool_tick (fst (enrichToken est w a td)) = Some 0
              \<and> ti_price_usd (fst (enrichToken est w a td)) = Some 0
              \<and> ti_liquidity_usd (fst (enrichToken est w a td)) = Some 0
              \<and> ti_market_cap (fst (enrichToken est w a td)) = ti_market_cap td"
    if "\<not> (\<exists>p. Some p \<in> set (ti_pools td) \<and> candidate p \<and> 0 < liquidityValue p)"
  proof -
    have "highestLiquidity sel = 0"
    proof (cases "bestPool sel")
      case None
      then show ?thesis using sel(2) by (simp add: consistent_def)
    next
      case (Some b)
      then have "candidate b" "0 < liquidityValue b" "Some b \<in> set (ti_pools td)"
        using sel(2,4) by (simp_all add: consistent_def noSelection_def)
      then show ?thesis using that by blast
    qed
    then have s: "sel = noSelection (ti_main_dex td)" using sel(5) by (simp add: noSelection_def)
    have nb: "bestPool sel = None" by (simp add: s noSelection_def)
    show ?thesis
      using fields priceToken_no_best[OF nb, of est w a ?td1]
      by (simp add: e) (simp add: s noSelection_def)
  qed
  show ?thesis using ended some none by blast
qed

theorem main_pool_has_largest_liquidity_witness:
  "ti_main_pool_address (fst (enrichToken flatEstimators 1911 ''0xb''
       (betaWith [Some (poolOf ''0xp1'' ''100'' 7), Some (poolOf ''0xp2'' ''500000'' 9)])))
     = Some ''0xp2''
   \<and> ti_main_pool_tick (fst (enrichToken flatEstimators 1911 ''0xb''
       (betaWith [Some (poolOf ''0xp1'' ''100'' 7), Some (poolOf ''0xp2'' ''500000'' 9)])))
     = Some 9
   \<and> ti_main_dex (fst (enrichToken flatEstimators 1911 ''0xb''
       (betaWith [Some (poolOf ''0xp1'' ''100'' 7), Some (poolOf ''0xp2'' ''500000'' 9)])))
     = Some ''Uniswap V3''
   \<and> ti_main_pool_address (fst (enrichToken flatEstimators 1911 ''0xb''
       (betaWith [Some (poolOf ''0xp0'' ''0'' 5)])))
     = Some []
   \<and> ti_price_usd (fst (enrichToken flatEstimators 1911 ''0xb''
       (betaWith [Some (poolOf ''0xp0'' ''0'' 5)])))
     = Some 0"
proof -
  let ?small = "poolOf ''0xp1'' ''100'' 7" and ?large = "poolOf ''0xp2'' ''500000'' 9"
  let ?td = "betaWith [Some ?small, Some ?large]"
  have wf: "\<forall>q. Some q \<in> set (ti_pools ?td) \<longrightarrow> decimalLiquidity q"
    by (auto simp: pools_betaWith decimalLiquidity_poolOf)
  have ne: "ti_pools ?td \<noteq> []" by (simp add: pools_betaWith)
  have mem: "Some ?large \<in> set (ti_pools ?td)" by (simp add: pools_betaWith)
  have cand: "candidate ?large" by (simp add: candidate_poolOf)
  have pos: "0 < liquidityValue ?large" by (simp add: liquidityValue_poolOf)
  have ex: "\<exists>p. Some p \<in> set (ti_pools ?td) \<and> candidate p \<and> 0 < liquidityValue p"
    using mem cand pos by blast
  from main_pool_has_largest_liquidity[OF wf ne, of flatEstimators 1911 "''0xb''"] ex
  obtain b where b: "Some b \<in> set (ti_pools ?td)"
      "\<forall>q. Some q \<in> set (ti_pools ?td) \<and> candidate q \<longrightarrow> liquidityValue q \<le> liquidityValue b"
      "ti_main_dex (fst (enrichToken flatEstimators 1911 ''0xb'' ?td)) = Some (pool_dex b)"
      "ti_main_pool_address (fst (enrichToken flatEstimators 1911 ''0xb'' ?td)) = Some (pool_address b)"
      "ti_main_pool_tick (fst (enrichToken flatEstimators 1911 ''0xb'' ?td)) = pool_tick b"
    by blast
  have "liquidityValue ?large \<le> liquidityValue b" using b(2) mem cand by blast
  then have "b \<noteq> ?small" by (auto simp: liquidityValue_poolOf)
  then have "b = ?large" using b(1) by (simp add: pools_betaWith)
  then have first: "ti_main_pool_address (fst (enrichToken flatEstimators 1911 ''0xb'' ?td)) = Some ''0xp2''
      \<and> ti_main_pool_tick (fst (enrichToken flatEstimators 1911 ''0xb'' ?td)) = Some 9
      \<and> ti_main_dex (fst (enrichToken flatEstimators 1911 ''0xb'' ?td)) = Some ''Uniswap V3''"
    using b(3,4,5) by (simp add: poolOf_def)
  let ?zero = "poolOf ''0xp0'' ''0'' 5"
  let ?tz = "betaWith [Some ?zero]"
  have wfz: "\<forall>q. Some q \<in> set (ti_pools ?tz) \<longrightarrow> decimalLiquidity q"
    by (auto simp: pools_betaWith decimalLiquidity_poolOf)
  have nez: "ti_pools ?tz \<noteq> []" by (simp add: pools_betaWith)
  have nopos: "\<not> (\<exists>p. Some p \<in> set (ti_pools ?tz) \<and> candidate p \<and> 0 < liquidityValue p)"
    by (auto simp: pools_betaWith liquidityValue_poolOf)
  from main_pool_has_largest_liquidity[OF wfz nez, of flatEstimators 1911 "''0xb''"] nopos
  have second: "ti_main_pool_address (fst (enrichToken flatEstimators 1911 ''0xb'' ?tz)) = Some []
      \<and> ti_price_usd (fst (enrichToken flatEstimators 1911 ''0xb'' ?tz)) = Some 0"
    by blast
  show ?thesis using first second by blast
qed

text \<open>
  A token whose only pool has tick data and the liquidity string "0": no pool is
  chosen, and the recorded main pool address is the empty string, not the pool's.
\<close>

theorem zero_liquidity_pool_not_selected:
  "candidate (poolOf ''0xp0'' ''0'' 5)
   \<and> ti_pools (betaWith [Some (poolOf ''0xp0'' ''0'' 5)]) = [Some (poolOf ''0xp0'' ''0'' 5)]
   \<and> ti_main_pool_address (fst (enrichToken flatEstimators 1911 ''0xb''
         (betaWith [Some (poolOf ''0xp0'' ''0'' 5)])))
       \<noteq> Some (pool_address (poolOf ''0xp0'' ''0'' 5))"
proof -
  let ?td = "betaWith [Some (poolOf ''0xp0'' ''0'' 5)]"
  have ne: "ti_pools ?td \<noteq> []" by (simp add: pools_betaWith)
  have s: "selectMainPool (ti_pools ?td) (noSelection (ti_main_dex ?td)) = (noSelection None, None)"
    by (simp add: pools_betaWith poolOf_def BigInt_def digit_def noSelection_def)
  have "ti_main_pool_address (fst (enrichToken flatEstimators 1911 ''0xb'' ?td)) = Some []"
    unfolding enrichToken_selected[OF ne s]
    using priceToken_main_fields[of flatEstimators 1911 "''0xb''" "noSelection None"
            "?td\<lparr>ti_pool_count := Some (length (ti_pools ?td))\<rparr>"]
    by (simp add: noSelection_def)
  then show ?thesis
    by (simp add: candidate_poolOf pools_betaWith) (simp add: poolOf_def)
qed

subsection \<open>The price of a token that is token1 of its main pool\<close>

text \<open>
  C8 (as amended). When the token is token1 of its main pool (token0 is WETH, with 18
  decimals), the price in WETH is the inverse of \<open>calculatePriceFromTick\<close> called with
  the two decimals exchanged: \<open>1 / (1.0001^t * 10^(18 - d))\<close> where \<open>d\<close> is the
  token's number of decimals, that is \<open>10^(d0 - d1)\<close> for token0 decimals \<open>d0\<close> and
  token1 decimals \<open>d1\<close>; the USD price stored on the token is that times the WETH
  price.
\<close>

theorem token1_price_is_inverse:
  assumes "ti_pools td \<noteq> []"
      and "selectMainPool (ti_pools td) (noSelection (ti_main_dex td)) = (sel, None)"
      and "bestPool sel = Some b" and "pool_tick b = Some t"
      and "toLowerCase (pool_token0 b) \<noteq> toLowerCase tokenAddress"
  shows "ti_price_usd (fst (enrichToken est wethPriceUsd tokenAddress td))
           = Some (priceInWETH False (bi_decimals td) t * wethPriceUsd)
       \<and> priceInWETH False (bi_decimals td) t
           = 1 / (1.0001 powi t * 10 powi (18 - int (bi_decimals td)))"
  using assms priceToken_price[OF assms(3,4), of est wethPriceUsd tokenAddress
          "td\<lparr>ti_pool_count := Some (length (ti_pools td))\<rparr>"]
  by (simp add: enrichToken_selected priceInWETH_token1)

theorem token1_price_is_inverse_witness:
  "ti_price_usd (fst (enrichToken flatEstimators 1911 ''0xb''
       (betaWith [Some (poolOf ''0xp2'' ''500000'' 0)])))
     = Some (1911 / 10 ^ 12)"
proof -
  let ?b = "poolOf ''0xp2'' ''500000'' 0"
  let ?td = "betaWith [Some ?b]"
  let ?sel = "\<lparr> highestLiquidity = 500000, bestPool = Some ?b,
        mainPoolAddress = ''0xp2'', mainPoolTick = 0, main_dex = Some ''Uniswap V3'' \<rparr>"
  have ne: "ti_pools ?td \<noteq> []" by (simp add: pools_betaWith)
  have sel: "selectMainPool (ti_pools ?td) (noSelection (ti_main_dex ?td)) = (?sel, None)"
    unfolding pools_betaWith by (rule select_single)
  have bp: "bestPool ?sel = Some ?b" by simp
  have tk: "pool_tick ?b = Some 0" by (simp add: poolOf_def)
  have t1: "toLowerCase (pool_token0 ?b) \<noteq> toLowerCase ''0xb''"
    using toLowerCase_WETH by (simp add: poolOf_def toLowerCase_0xb)
  from token1_price_is_inverse[OF ne sel bp tk t1, of flatEstimators 1911]
  show ?thesis by (simp add: pools_betaWith)
qed

text \<open>
  A token with 6 decimals that is token1 of a pool at tick 0, priced with a WETH price
  of 1: the stored price is \<open>10^-12\<close>, not the \<open>1 / (1.0001^0 * 10^(6 - 18))\<close> that
  the exponent \<open>d1 - d0\<close> would give.
\<close>

theorem token1_price_exponent_counterexample:
  "ti_price_usd (fst (enrichToken flatEstimators 1 ''0xb''
       (betaWith [Some (poolOf ''0xp2'' ''500000'' 0)])))
     \<noteq> Some (1 / (1.0001 powi 0 * 10 powi (6 - 18)) * 1)"
proof -
  let ?b = "poolOf ''0xp2'' ''500000'' 0"
  let ?td = "betaWith [Some ?b]"
  let ?sel = "\<lparr> highestLiquidity = 500000, bestPool = Some ?b,
        mainPoolAddress = ''0xp2'', mainPoolTick = 0, main_dex = Some ''Uniswap V3'' \<rparr>"
  have ne: "ti_pools ?td \<noteq> []" by (simp add: pools_betaWith)
  have sel: "selectMainPool (ti_pools ?td) (noSelection (ti_main_dex ?td)) = (?sel, None)"
    unfolding pools_betaWith by (rule select_single)
  have e: "enrichToken flatEstimators 1 ''0xb'' ?td =
           (priceToken flatEstimators 1 ''0xb'' ?sel (?td\<lparr>ti_pool_count := Some (length (ti_pools ?td))\<rparr>), None)"
    by (rule enrichToken_selected[OF ne sel])
  have t1: "toLowerCase (pool_token0 ?b) \<noteq> toLowerCase ''0xb''"
    using toLowerCase_WETH by (simp add: poolOf_def toLowerCase_0xb)
  have "ti_price_usd (fst (enrichToken flatEstimators 1 ''0xb'' ?td)) = Some (1 / 10 ^ 12)"
    unfolding e using t1 priceToken_price[of ?sel ?b 0 flatEstimators 1 "''0xb''"
       "?td\<lparr>ti_pool_count := Some (length (ti_pools ?td))\<rparr>"]
    by (simp add: poolOf_def priceInWETH_token1 pools_betaWith)
  then show ?thesis by simp
qed

subsection \<open>Overlapping runs of updateTokenData\<close>

text \<open>
  As long as only the cron callback starts runs, at most one run is in flight.
\<close>

lemma cron_runs_do_not_overlap:
  "StartupTimeout \<notin> set ts \<Longrightarrow> StartupRunEnds \<notin> set ts \<Longrightarrow> startupRuns s = 0 \<Longrightarrow>
   cronRuns s = (if isUpdating s then 1 else 0) \<Longrightarrow>
   activeRuns (schedule ts s) \<le> 1"
proof (induction ts arbitrary: s)
  case Nil
  then show ?case by (simp add: schedule_def activeRuns_def)
next
  case (Cons t ts)
  have "activeRuns (schedule ts (fire t s)) \<le> 1"
    using Cons.prems by (intro Cons.IH) (cases t; auto)+
  then show ?case by (simp add: schedule_def)
qed

text \<open>
  C9. The startup timeout starts \<open>updateTokenData\<close> without reading or setting
  \<open>isUpdating\<close>. A cron run that is still in flight when the timeout fires is joined
  by a second run; and a startup run in flight leaves the flag clear, so the next cron
  tick starts a second run beside it.
\<close>

theorem startup_run_overlaps_cron_run:
  "activeRuns (schedule [CronTick, StartupTimeout] idle) = 2
   \<and> activeRuns (schedule [StartupTimeout, CronTick] idle) = 2
   \<and> isUpdating (schedule [StartupTimeout] idle) = False"
  by (simp add: schedule_def activeRuns_def idle_def)

end
